theory Spec2Isabelle
  imports Complex_Main "HOL-Library.AList"
begin

section \<open>Python values shared by the pipeline's components\<close>

text \<open>
  The handlers exchange JSON documents: sidecar payloads, request bodies, the data the
  extraction model returns. A Python \<open>dict\<close> keeps its insertion order, so an object is
  an association list; \<open>map_of\<close> reads a key and \<open>AList.update\<close> assigns one.
  A \<open>datetime\<close> is the number of microseconds since the epoch, and \<open>JTime t\<close> is
  the JSON string holding its \<open>isoformat()\<close> text: the handlers only write such
  strings and read them back with \<open>fromisoformat\<close>, which returns the same datetime.
  A number is a Python \<open>int\<close> (\<open>JInt\<close>) or a finite \<open>float\<close> (\<open>JNum\<close>):
  \<open>json.loads\<close> tells them apart by the fraction or exponent in the text, and the
  DynamoDB client accepts the first and refuses the second.
  A \<open>str\<close> is the list of its characters, and a \<open>char\<close> holds a code point below
  256: the texts of this model are the Latin-1 ones.
\<close>

datatype json =
    JNull
  | JBool bool
  | JInt int
  | JNum real
  | JStr string
  | JTime int
  | JArr "json list"
  | JObj "(string \<times> json) list"

datatype py_error =
    ValueError string
  | KeyError string
  | AttributeError string
  | TypeError string
  | JSONDecodeError string
  | UnicodeDecodeError string
  | RecursionError string
  | ServiceError string

text \<open>Python truthiness of a decoded JSON value (\<open>x or default\<close>, \<open>if x:\<close>).\<close>

fun truthy :: "json \<Rightarrow> bool" where
  "truthy JNull = False"
| "truthy (JBool b) = b"
| "truthy (JInt n) = (n \<noteq> 0)"
| "truthy (JNum r) = (r \<noteq> 0)"
| "truthy (JStr s) = (s \<noteq> [])"
| "truthy (JTime t) = True"
| "truthy (JArr xs) = (xs \<noteq> [])"
| "truthy (JObj kvs) = (kvs \<noteq> [])"

subsection \<open>String primitives\<close>

text \<open>\<open>s.endswith(suf)\<close> and \<open>s.startswith(pre)\<close>.\<close>

definition endswith :: "string \<Rightarrow> string \<Rightarrow> bool" where
  "endswith s suf = (length suf \<le> length s \<and> drop (length s - length suf) s = suf)"

definition startswith :: "string \<Rightarrow> string \<Rightarrow> bool" where
  "startswith s pre = (take (length pre) s = pre)"

text \<open>\<open>s[:-n]\<close> for a length \<open>n\<close>: Python reads \<open>s[:-0]\<close> as \<open>s[:0]\<close>, the empty string.\<close>

definition drop_last_n :: "string \<Rightarrow> nat \<Rightarrow> string" where
  "drop_last_n s n = (if n = 0 then [] else take (length s - n) s)"

text \<open>
  \<open>s.split(c)\<close> for a one-character separator: the pieces between the separators,
  always at least one piece.
\<close>

fun split_on :: "char \<Rightarrow> string \<Rightarrow> string list" where
  "split_on c [] = [[]]"
| "split_on c (x # xs) =
     (if x = c then [] # split_on c xs
      else (case split_on c xs of
              [] \<Rightarrow> [[x]]
            | p # ps \<Rightarrow> (x # p) # ps))"

text \<open>\<open>sep.join(parts)\<close>.\<close>

fun join :: "string \<Rightarrow> string list \<Rightarrow> string" where
  "join sep [] = []"
| "join sep [p] = p"
| "join sep (p # q # ps) = p @ sep @ join sep (q # ps)"

section \<open>Sidecar Store: key derivation and classification\<close>

text \<open>\<open>SidecarManager.SIDECAR_TYPES\<close>, in the order the dictionary is written.\<close>

definition SIDECAR_TYPES :: "(string \<times> string) list" where
  "SIDECAR_TYPES =
     [(''metadata'', ''.metadata.json''),
      (''extracted'', ''.extracted.json''),
      (''processing'', ''.processing.json''),
      (''insights'', ''.insights.json''),
      (''audit'', ''.audit.json'')]"

definition get_sidecar_key :: "string \<Rightarrow> string \<Rightarrow> py_error + string" where
  "get_sidecar_key document_s3_key sidecar_type =
     (case map_of SIDECAR_TYPES sidecar_type of
        None \<Rightarrow> Inl (ValueError ''Unknown sidecar type'')
      | Some suffix \<Rightarrow>
          if suffix = [] then Inl (ValueError ''Unknown sidecar type'')
          else Inr (document_s3_key @ suffix))"

definition is_sidecar_file :: "string \<Rightarrow> bool" where
  "is_sidecar_file s3_key = list_ex (\<lambda>suffix. endswith s3_key suffix) (map snd SIDECAR_TYPES)"

fun first_suffix :: "string \<Rightarrow> string list \<Rightarrow> string option" where
  "first_suffix k [] = None"
| "first_suffix k (suffix # rest) =
     (if endswith k suffix then Some (drop_last_n k (length suffix))
      else first_suffix k rest)"

definition get_document_from_sidecar_key :: "string \<Rightarrow> string option" where
  "get_document_from_sidecar_key sidecar_s3_key =
     first_suffix sidecar_s3_key (map snd SIDECAR_TYPES)"

section \<open>Document identity in storage keys\<close>

text \<open>
  The Upload Initiator derives the storage key
  \<^verbatim>\<open>f"users/{user_id}/{document_type}/{document_id}-{filename}"\<close>.
\<close>

definition upload_s3_key :: "string \<Rightarrow> string \<Rightarrow> string \<Rightarrow> string \<Rightarrow> string" where
  "upload_s3_key user_id document_type document_id filename =
     ''users/'' @ user_id @ ''/'' @ document_type @ ''/'' @ document_id @ ''-'' @ filename"

text \<open>\<open>s.rsplit(c, 1)[0]\<close>: the text before the last separator, all of \<open>s\<close> without one.\<close>

definition rsplit1_head :: "char \<Rightarrow> string \<Rightarrow> string" where
  "rsplit1_head c s =
     (if c \<in> set s then rev (tl (dropWhile (\<lambda>x. x \<noteq> c) (rev s))) else s)"

text \<open>Ingestion Trigger: \<open>extract_user_id_from_s3_key\<close> and \<open>extract_document_id_from_s3_key\<close>.\<close>

definition extract_user_id_from_s3_key :: "string \<Rightarrow> string option" where
  "extract_user_id_from_s3_key s3_key =
     (case split_on CHR ''/'' s3_key of
        p0 # p1 # _ \<Rightarrow> (if p0 = ''users'' then Some p1 else None)
      | _ \<Rightarrow> None)"

definition extract_document_id_from_s3_key :: "string \<Rightarrow> string" where
  "extract_document_id_from_s3_key s3_key =
     (let filename = last (split_on CHR ''/'' s3_key) in
      if CHR ''-'' \<in> set filename then
        (let parts = split_on CHR ''-'' filename in
         if 5 \<le> length parts then join ''-'' (take 5 parts)
         else rsplit1_head CHR ''-'' filename)
      else hd (split_on CHR ''.'' filename))"

text \<open>
  Extraction Worker: the document id \<open>update_document_metadata\<close> computes,
  \<^verbatim>\<open>s3_key.split('/')[-1].split('-')[0]\<close>, and its user id.
\<close>

definition analysis_document_id :: "string \<Rightarrow> string" where
  "analysis_document_id s3_key = hd (split_on CHR ''-'' (last (split_on CHR ''/'' s3_key)))"

definition analysis_user_id :: "string \<Rightarrow> string" where
  "analysis_user_id s3_key =
     (case split_on CHR ''/'' s3_key of
        p0 # p1 # _ \<Rightarrow> (if p0 = ''users'' then p1 else ''unknown'')
      | _ \<Rightarrow> ''unknown'')"

text \<open>A standard hyphenated UUID: groups of 8, 4, 4, 4 and 12 hexadecimal digits.\<close>

definition is_hex :: "char \<Rightarrow> bool" where
  "is_hex c = (c \<in> set ''0123456789abcdef'')"

definition is_uuid :: "string \<Rightarrow> bool" where
  "is_uuid u =
     (case split_on CHR ''-'' u of
        [a, b, c, d, e] \<Rightarrow>
          length a = 8 \<and> length b = 4 \<and> length c = 4 \<and> length d = 4 \<and> length e = 12 \<and>
          list_all is_hex (a @ b @ c @ d @ e)
      | _ \<Rightarrow> False)"

section \<open>The DocumentRecord table and the clock\<close>

text \<open>
  A DynamoDB item of the document metadata table: the two key attributes are always
  present, every other attribute may be missing.
\<close>

record item =
  userId :: string
  documentId :: string
  s3Key :: "string option"
  documentType :: "string option"
  originalFilename :: "string option"
  fileSize :: "json option"
  mimeType :: "string option"
  sidecarFiles :: "(string \<times> string) list option"
  currentStatus :: "string option"
  ingestionJobId :: "string option"
  indexingDelayUntil :: "int option"
  errorMessage :: "string option"
  extractionConfidence :: "real option"
  hasActionItems :: "bool option"
  tags :: "json option"
  createdAt :: "int option"
  updatedAt :: "int option"

definition empty_item :: "string \<Rightarrow> string \<Rightarrow> item" where
  "empty_item uid did =
     \<lparr>userId = uid, documentId = did, s3Key = None, documentType = None,
      originalFilename = None, fileSize = None, mimeType = None, sidecarFiles = None,
      currentStatus = None, ingestionJobId = None, indexingDelayUntil = None,
      errorMessage = None, extractionConfidence = None, hasActionItems = None,
      tags = None, createdAt = None, updatedAt = None\<rparr>"

text \<open>
  An S3 object. \<open>Json v\<close> is a body that is the JSON text of \<open>v\<close>; \<open>Utf8 b\<close> is a
  body of the bytes \<open>b\<close> that decode as UTF-8 but are no JSON document, \<open>Binary b\<close> a
  body of bytes that do not decode as UTF-8.
\<close>

datatype s3_body = Json json | Utf8 string | Binary string

record s3_object =
  body :: s3_body
  content_type :: "string option"
  metadata :: "(string \<times> json) list"

text \<open>
  Everything the handlers can change: the objects by (bucket, key), the table by
  (userId, documentId) in scan order, the number of clock readings and of UUIDs drawn
  so far, the client tokens of the ingestion jobs started, the payloads of the
  asynchronous Lambda invocations, and the activity log.
\<close>

record world =
  objects :: "(string \<times> string) \<rightharpoonup> s3_object"
  table :: "((string \<times> string) \<times> item) list"
  ticks :: nat
  uuids_drawn :: nat
  ingestion_calls :: "string list"
  invocations :: "json list"
  activity_log :: "json list"

text \<open>\<open>datetime.utcnow()\<close>: the next reading of the clock.\<close>

definition utcnow :: "(nat \<Rightarrow> int) \<Rightarrow> world \<Rightarrow> int \<times> world" where
  "utcnow clock w = (clock (ticks w), w\<lparr>ticks := Suc (ticks w)\<rparr>)"

text \<open>
  \<open>get_item\<close>, \<open>put_item\<close> and \<open>update_item\<close>; the last one creates the item when the
  key is new, as DynamoDB does.
\<close>

definition get_item :: "world \<Rightarrow> string \<Rightarrow> string \<Rightarrow> item option" where
  "get_item w uid did = map_of (table w) (uid, did)"

definition put_item :: "item \<Rightarrow> world \<Rightarrow> world" where
  "put_item it w = w\<lparr>table := AList.update (userId it, documentId it) it (table w)\<rparr>"

definition update_item :: "string \<Rightarrow> string \<Rightarrow> (item \<Rightarrow> item) \<Rightarrow> world \<Rightarrow> world" where
  "update_item uid did f w =
     (let old = (case get_item w uid did of None \<Rightarrow> empty_item uid did | Some it \<Rightarrow> it)
      in w\<lparr>table := AList.update (uid, did) (f old) (table w)\<rparr>)"

section \<open>Status Poller\<close>

text \<open>The \<open>ingestionJob\<close> part of a \<open>get_ingestion_job\<close> response.\<close>

record ingestion_job =
  job_status :: "string option"
  failureReasons :: "string list option"

definition settle_delay :: int where
  "settle_delay = 15 * 1000000"

text \<open>\<open>if not x\<close> on an optional string: missing and empty are both false.\<close>

definition present :: "string option \<Rightarrow> bool" where
  "present x = (case x of None \<Rightarrow> False | Some s \<Rightarrow> s \<noteq> [])"

text \<open>
  The body of the poller's loop for one scanned item \<open>doc\<close>. Any exception inside is
  caught and logged by the loop, so a failing \<open>get_ingestion_job\<close> leaves the world as
  it is.
\<close>

definition check_document ::
  "(nat \<Rightarrow> int) \<Rightarrow> (string \<Rightarrow> py_error + ingestion_job) \<Rightarrow> item \<Rightarrow> world \<Rightarrow> world" where
  "check_document clock get_ingestion_job doc w =
     (let user_id = userId doc; document_id = documentId doc in
      if \<not> present (ingestionJobId doc) then w
      else
        (case get_ingestion_job (the (ingestionJobId doc)) of
           Inl e \<Rightarrow> w
         | Inr job \<Rightarrow>
             if job_status job = Some ''COMPLETE'' then
               (if currentStatus doc = Some ''ingestion_in_progress'' then
                  (let (t1, w1) = utcnow clock w;
                       (t2, w2) = utcnow clock w1
                   in update_item user_id document_id
                        (\<lambda>it. it\<lparr>currentStatus := Some ''indexing_wait'',
                                 indexingDelayUntil := Some (t1 + settle_delay),
                                 updatedAt := Some t2\<rparr>) w2)
                else if currentStatus doc = Some ''indexing_wait''
                        \<and> indexingDelayUntil doc \<noteq> None then
                  (let (t1, w1) = utcnow clock w in
                   if t1 \<ge> the (indexingDelayUntil doc) then
                     (let (t2, w2) = utcnow clock w1
                      in update_item user_id document_id
                           (\<lambda>it. it\<lparr>currentStatus := Some ''ingestion_complete'',
                                    updatedAt := Some t2,
                                    indexingDelayUntil := None\<rparr>) w2)
                   else w1)
                else w)
             else if job_status job = Some ''FAILED'' then
               (let failure_reasons =
                      (case failureReasons job of None \<Rightarrow> [''Unknown error''] | Some rs \<Rightarrow> rs);
                    msg = join '', '' failure_reasons;
                    (t, w1) = utcnow clock w
                in update_item user_id document_id
                     (\<lambda>it. it\<lparr>currentStatus := Some ''error'',
                              errorMessage := Some msg,
                              updatedAt := Some t\<rparr>) w1)
             else w))"

text \<open>
  The scan with its filter expression, and the handler: the scanned items are checked in
  order, each against the world the previous ones left.
\<close>

definition scan_in_progress :: "world \<Rightarrow> item list" where
  "scan_in_progress w =
     filter (\<lambda>it. currentStatus it = Some ''ingestion_in_progress''
                 \<or> currentStatus it = Some ''indexing_wait'')
       (map snd (table w))"

definition status_checker_handler ::
  "(nat \<Rightarrow> int) \<Rightarrow> (string \<Rightarrow> py_error + ingestion_job) \<Rightarrow> world \<Rightarrow> nat \<times> world" where
  "status_checker_handler clock get_ingestion_job w =
     (let documents = scan_in_progress w
      in (length documents,
          fold (check_document clock get_ingestion_job) documents w))"

section \<open>Status Reader\<close>

text \<open>An API Gateway request, as far as the handlers read it.\<close>

record 'b api_event =
  claims :: "(string \<times> string) list option"
  path_parameters :: "(string \<times> string) list"
  request_body :: "'b"

record response =
  statusCode :: nat
  response_body :: json

text \<open>
  \<open>get_user_id_from_event\<close>: a missing authorizer context raises \<open>KeyError\<close> or
  \<open>TypeError\<close>, rethrown as \<open>ValueError\<close>; so does a context without a user id.
\<close>

definition get_user_id_from_event :: "'b api_event \<Rightarrow> py_error + string" where
  "get_user_id_from_event event =
     (case claims event of
        None \<Rightarrow> Inl (ValueError ''Invalid authorization context'')
      | Some cl \<Rightarrow>
          (if present (map_of cl ''sub'') then Inr (the (map_of cl ''sub''))
           else if present (map_of cl ''cognito:username'')
             then Inr (the (map_of cl ''cognito:username''))
           else Inl (ValueError ''Could not extract userId from token'')))"

definition status_map :: "(string \<times> (string \<times> string \<times> nat)) list" where
  "status_map =
     [(''upload_initiated'', (''uploading'', ''Uploading document...'', 10)),
      (''upload_complete'', (''processing'', ''Processing document...'', 30)),
      (''ingestion_started'', (''ingesting'', ''Adding to knowledge base...'', 50)),
      (''ingestion_in_progress'', (''ingesting'', ''Adding to knowledge base...'', 70)),
      (''ingestion_complete'',
         (''ready'', ''Document ready! You can now chat about this document.'', 100)),
      (''error'', (''error'', ''Error processing document'', 0))]"

definition status_info :: "string \<Rightarrow> string \<times> string \<times> nat" where
  "status_info current_status =
     (case map_of status_map current_status of
        None \<Rightarrow> (''unknown'', ''Processing...'', 50)
      | Some info \<Rightarrow> info)"

definition error_response :: "nat \<Rightarrow> string \<Rightarrow> response" where
  "error_response code msg =
     \<lparr>statusCode = code, response_body = JObj [(''error'', JStr msg)]\<rparr>"

text \<open>\<open>str(e)\<close>: the message; a \<open>KeyError\<close> shows its key in quotes.\<close>

definition error_text :: "py_error \<Rightarrow> string" where
  "error_text e =
     (case e of ValueError m \<Rightarrow> m | KeyError m \<Rightarrow> [CHR 0x27] @ m @ [CHR 0x27]
      | AttributeError m \<Rightarrow> m
      | TypeError m \<Rightarrow> m | JSONDecodeError m \<Rightarrow> m | UnicodeDecodeError m \<Rightarrow> m
      | RecursionError m \<Rightarrow> m | ServiceError m \<Rightarrow> m)"

definition document_status_handler ::
  "(nat \<Rightarrow> int) \<Rightarrow> unit api_event \<Rightarrow> world \<Rightarrow> response \<times> world" where
  "document_status_handler clock event w =
     (case get_user_id_from_event event of
        Inl e \<Rightarrow> (error_response 401 (error_text e), w)
      | Inr user_id \<Rightarrow>
          if \<not> present (map_of (path_parameters event) ''documentId'') then
            (error_response 400 ''documentId is required'', w)
          else
            (let document_id = the (map_of (path_parameters event) ''documentId'') in
             case get_item w user_id document_id of
               None \<Rightarrow> (error_response 404 ''Document not found'', w)
             | Some it \<Rightarrow>
                 (let current_status =
                        (case currentStatus it of None \<Rightarrow> ''unknown'' | Some c \<Rightarrow> c);
                      (st, message, progress) = status_info current_status;
                      (t, w1) = utcnow clock w
                  in (\<lparr>statusCode = 200,
                       response_body = JObj
                         [(''documentId'', JStr document_id),
                          (''currentStatus'', JStr st),
                          (''statusMessage'', JStr message),
                          (''progress'', JInt (int progress)),
                          (''updatedAt'',
                             JTime (case updatedAt it of None \<Rightarrow> t | Some u \<Rightarrow> u)),
                          (''originalFilename'',
                             JStr (case originalFilename it of None \<Rightarrow> [] | Some f \<Rightarrow> f)),
                          (''documentType'',
                             JStr (case documentType it of None \<Rightarrow> ''other'' | Some d \<Rightarrow> d))]\<rparr>,
                      w1))))"

text \<open>The three fields of a status response that the mapping table decides.\<close>

definition body_field :: "response \<Rightarrow> string \<Rightarrow> json option" where
  "body_field r k = (case response_body r of JObj kvs \<Rightarrow> map_of kvs k | _ \<Rightarrow> None)"

definition reported :: "response \<Rightarrow> json option \<times> json option \<times> json option" where
  "reported r = (body_field r ''currentStatus'', body_field r ''statusMessage'', body_field r ''progress'')"

section \<open>Sidecar Store: reading, writing, appending\<close>

text \<open>
  A handler's step returns what the Python returns or raises, together with the world
  it leaves: an exception does not undo the writes made before it.
\<close>

type_synonym 'a outcome = "(py_error + 'a) \<times> world"

text \<open>
  \<open>write_sidecar\<close> overwrites the object at the sidecar key; \<open>bucket\<close> is the manager's
  \<open>self.bucket\<close>. \<open>read_sidecar\<close> returns \<open>None\<close> for a missing object and raises when
  the body is no JSON.
\<close>

definition write_sidecar ::
  "(nat \<Rightarrow> int) \<Rightarrow> string \<Rightarrow> string \<Rightarrow> string \<Rightarrow> json \<Rightarrow> world \<Rightarrow> string outcome" where
  "write_sidecar clock bucket document_s3_key sidecar_type data w =
     (case get_sidecar_key document_s3_key sidecar_type of
        Inl e \<Rightarrow> (Inl e, w)
      | Inr sidecar_key \<Rightarrow>
          (let (t, w1) = utcnow clock w in
           (Inr sidecar_key,
            w1\<lparr>objects := (objects w1)((bucket, sidecar_key) \<mapsto>
                  \<lparr>body = Json data, content_type = Some ''application/json'',
                   metadata = [(''sidecar-type'', JStr sidecar_type),
                               (''parent-document'', JStr document_s3_key),
                               (''created-at'', JTime t)]\<rparr>)\<rparr>)))"

definition read_sidecar :: "string \<Rightarrow> string \<Rightarrow> string \<Rightarrow> world \<Rightarrow> py_error + json option" where
  "read_sidecar bucket document_s3_key sidecar_type w =
     (case get_sidecar_key document_s3_key sidecar_type of
        Inl e \<Rightarrow> Inl e
      | Inr sidecar_key \<Rightarrow>
          (case objects w (bucket, sidecar_key) of
             None \<Rightarrow> Inr None
           | Some ob \<Rightarrow>
               (case body ob of
                  Json v \<Rightarrow> Inr (Some v)
                | Utf8 s \<Rightarrow> Inl (JSONDecodeError ''Expecting value'')
                | Binary b \<Rightarrow> Inl (UnicodeDecodeError ''invalid start byte''))))"

text \<open>\<open>x or default\<close> on what \<open>read_sidecar\<close> returned.\<close>

definition or_default :: "json option \<Rightarrow> json \<Rightarrow> json" where
  "or_default r dflt = (case r of None \<Rightarrow> dflt | Some d \<Rightarrow> if truthy d then d else dflt)"

text \<open>
  \<open>d[key]\<close> with a string key, the lookup of the \<open>append\<close> method, and \<open>d[key] = v\<close> on a
  dictionary.
\<close>

definition subscript :: "json \<Rightarrow> string \<Rightarrow> py_error + json" where
  "subscript d k =
     (case d of
        JObj kvs \<Rightarrow> (case map_of kvs k of None \<Rightarrow> Inl (KeyError k) | Some v \<Rightarrow> Inr v)
      | _ \<Rightarrow> Inl (TypeError ''indices must be integers''))"

definition as_list :: "json \<Rightarrow> py_error + json list" where
  "as_list v =
     (case v of JArr xs \<Rightarrow> Inr xs | _ \<Rightarrow> Inl (AttributeError ''object has no attribute append''))"

definition set_key :: "string \<Rightarrow> json \<Rightarrow> json \<Rightarrow> json" where
  "set_key k v d = (case d of JObj kvs \<Rightarrow> JObj (AList.update k v kvs) | _ \<Rightarrow> d)"

text \<open>\<open>{**base, **extra}\<close>: a later key replaces the value and keeps the place.\<close>

definition dict_merge :: "(string \<times> json) list \<Rightarrow> (string \<times> json) list \<Rightarrow> (string \<times> json) list" where
  "dict_merge base extra = fold (\<lambda>(k, v). AList.update k v) extra base"

definition nonempty_dict :: "(string \<times> json) list option \<Rightarrow> bool" where
  "nonempty_dict d = (case d of None \<Rightarrow> False | Some kvs \<Rightarrow> kvs \<noteq> [])"

definition processing_default :: json where
  "processing_default =
     JObj [(''statusChain'', JArr []), (''currentStatus'', JStr ''pending''), (''errors'', JArr [])]"

definition append_processing_status ::
  "(nat \<Rightarrow> int) \<Rightarrow> string \<Rightarrow> string \<Rightarrow> string \<Rightarrow> string \<Rightarrow> (string \<times> json) list option
     \<Rightarrow> world \<Rightarrow> unit outcome" where
  "append_processing_status clock bucket document_s3_key status details error_info w =
     (case read_sidecar bucket document_s3_key ''processing'' w of
        Inl e \<Rightarrow> (Inl e, w)
      | Inr r \<Rightarrow>
          (let processing_data = or_default r processing_default in
           case subscript processing_data ''statusChain'' of
             Inl e \<Rightarrow> (Inl e, w)
           | Inr chain_v \<Rightarrow>
               (case as_list chain_v of
                  Inl e \<Rightarrow> (Inl e, w)
                | Inr chain \<Rightarrow>
                    (let (t1, w1) = utcnow clock w;
                         d1 = set_key ''statusChain''
                                (JArr (chain @ [JObj [(''status'', JStr status),
                                                     (''timestamp'', JTime t1),
                                                     (''details'', JStr details)]]))
                                processing_data;
                         d2 = set_key ''currentStatus'' (JStr status) d1
                     in if nonempty_dict error_info then
                          (case subscript d2 ''errors'' of
                             Inl e \<Rightarrow> (Inl e, w1)
                           | Inr errors_v \<Rightarrow>
                               (case as_list errors_v of
                                  Inl e \<Rightarrow> (Inl e, w1)
                                | Inr errs \<Rightarrow>
                                    (let (t2, w2) = utcnow clock w1;
                                         err = JObj (dict_merge [(''timestamp'', JTime t2)]
                                                       (the error_info));
                                         d3 = set_key ''errors'' (JArr (errs @ [err])) d2
                                     in case write_sidecar clock bucket document_s3_key
                                               ''processing'' d3 w2 of
                                          (Inl e, w3) \<Rightarrow> (Inl e, w3)
                                        | (Inr sk, w3) \<Rightarrow> (Inr (), w3))))
                        else
                          (case write_sidecar clock bucket document_s3_key
                                  ''processing'' d2 w1 of
                             (Inl e, w3) \<Rightarrow> (Inl e, w3)
                           | (Inr sk, w3) \<Rightarrow> (Inr (), w3))))))"

definition append_audit_event ::
  "(nat \<Rightarrow> int) \<Rightarrow> string \<Rightarrow> string \<Rightarrow> string \<Rightarrow> string \<Rightarrow> (string \<times> json) list
     \<Rightarrow> world \<Rightarrow> unit outcome" where
  "append_audit_event clock bucket document_s3_key action user_id kwargs w =
     (case read_sidecar bucket document_s3_key ''audit'' w of
        Inl e \<Rightarrow> (Inl e, w)
      | Inr r \<Rightarrow>
          (let audit_data = or_default r (JObj [(''events'', JArr [])]);
               (t, w1) = utcnow clock w;
               event = JObj (dict_merge [(''timestamp'', JTime t), (''action'', JStr action),
                                         (''userId'', JStr user_id)] kwargs)
           in case subscript audit_data ''events'' of
                Inl e \<Rightarrow> (Inl e, w1)
              | Inr events_v \<Rightarrow>
                  (case as_list events_v of
                     Inl e \<Rightarrow> (Inl e, w1)
                   | Inr events \<Rightarrow>
                       (case write_sidecar clock bucket document_s3_key ''audit''
                               (set_key ''events'' (JArr (events @ [event])) audit_data) w1 of
                          (Inl e, w2) \<Rightarrow> (Inl e, w2)
                        | (Inr sk, w2) \<Rightarrow> (Inr (), w2)))))"

text \<open>What a reader of the processing sidecar sees: the chain and the current status.\<close>

definition status_chain :: "string \<Rightarrow> string \<Rightarrow> world \<Rightarrow> json list option" where
  "status_chain bucket document_s3_key w =
     (case read_sidecar bucket document_s3_key ''processing'' w of
        Inr (Some d) \<Rightarrow>
          (case subscript d ''statusChain'' of Inr (JArr xs) \<Rightarrow> Some xs | _ \<Rightarrow> None)
      | _ \<Rightarrow> None)"

definition sidecar_current_status :: "string \<Rightarrow> string \<Rightarrow> world \<Rightarrow> json option" where
  "sidecar_current_status bucket document_s3_key w =
     (case read_sidecar bucket document_s3_key ''processing'' w of
        Inr (Some d) \<Rightarrow> (case subscript d ''currentStatus'' of Inr v \<Rightarrow> Some v | _ \<Rightarrow> None)
      | _ \<Rightarrow> None)"

text \<open>
  The two cases of an append. \<open>appendable\<close>: the stored processing sidecar is missing,
  empty, or an object whose \<open>statusChain\<close> is a list and, when error information is
  given, whose \<open>errors\<close> is a list too. \<open>previous_chain\<close>: the chain the append starts
  from, the stored one or the empty chain of the default.
\<close>

definition has_list :: "json \<Rightarrow> string \<Rightarrow> bool" where
  "has_list d k = (case subscript d k of Inr (JArr xs) \<Rightarrow> True | _ \<Rightarrow> False)"

definition appendable ::
  "string \<Rightarrow> string \<Rightarrow> (string \<times> json) list option \<Rightarrow> world \<Rightarrow> bool" where
  "appendable bucket document_s3_key error_info w =
     (case read_sidecar bucket document_s3_key ''processing'' w of
        Inl e \<Rightarrow> False
      | Inr r \<Rightarrow>
          has_list (or_default r processing_default) ''statusChain'' \<and>
          (nonempty_dict error_info \<longrightarrow> has_list (or_default r processing_default) ''errors''))"

definition previous_chain :: "string \<Rightarrow> string \<Rightarrow> world \<Rightarrow> json list" where
  "previous_chain bucket document_s3_key w =
     (case read_sidecar bucket document_s3_key ''processing'' w of
        Inl e \<Rightarrow> []
      | Inr r \<Rightarrow>
          (case subscript (or_default r processing_default) ''statusChain'' of
             Inr (JArr xs) \<Rightarrow> xs
           | _ \<Rightarrow> []))"

section \<open>Sample inputs\<close>

text \<open>A clock, a table with one document of user \<open>u1\<close>, and a job in a given state.\<close>

definition demo_clock :: "nat \<Rightarrow> int" where
  "demo_clock n = 1000 + int n"

definition demo_item :: "string \<Rightarrow> item" where
  "demo_item st =
     (empty_item ''u1'' ''d1'')\<lparr>currentStatus := Some st, ingestionJobId := Some ''job-1''\<rparr>"

definition demo_world :: "item list \<Rightarrow> world" where
  "demo_world its =
     \<lparr>objects = Map.empty, table = map (\<lambda>it. ((userId it, documentId it), it)) its,
      ticks = 0, uuids_drawn = 0, ingestion_calls = [], invocations = [], activity_log = []\<rparr>"

definition demo_job :: "string \<Rightarrow> string list option \<Rightarrow> string \<Rightarrow> py_error + ingestion_job" where
  "demo_job st reasons job_id = Inr \<lparr>job_status = Some st, failureReasons = reasons\<rparr>"

definition demo_status_event :: "unit api_event" where
  "demo_status_event =
     \<lparr>claims = Some [(''sub'', ''u1'')], path_parameters = [(''documentId'', ''d1'')],
      request_body = ()\<rparr>"

definition demo_processing :: json where
  "demo_processing =
     JObj [(''statusChain'',
              JArr [JObj [(''status'', JStr ''upload_initiated''), (''timestamp'', JTime 900),
                          (''details'', JStr ''Presigned URL generated, awaiting upload'')]]),
           (''currentStatus'', JStr ''upload_initiated''),
           (''errors'', JArr [])]"

definition demo_sidecar_world :: world where
  "demo_sidecar_world =
     (demo_world [demo_item ''upload_initiated''])
       \<lparr>objects := [(''docs'', ''users/u1/other/d1-a.txt.processing.json'') \<mapsto>
            \<lparr>body = Json demo_processing, content_type = Some ''application/json'',
             metadata = []\<rparr>]\<rparr>"

text \<open>The same world, but the stored processing sidecar carries no \<open>statusChain\<close>.\<close>

definition demo_incomplete_world :: world where
  "demo_incomplete_world =
     (demo_world [demo_item ''upload_initiated''])
       \<lparr>objects := [(''docs'', ''users/u1/other/d1-a.txt.processing.json'') \<mapsto>
            \<lparr>body = Json (JObj [(''currentStatus'', JStr ''upload_initiated'')]),
             content_type = Some ''application/json'', metadata = []\<rparr>]\<rparr>"

section \<open>Ingestion Trigger\<close>

text \<open>
  The handler's configuration and collaborators: the environment variables it reads, the
  clock, and the ingestion service. \<open>start_ingestion_job n token\<close> is what the service
  answers to the call with that client token after \<open>n\<close> earlier calls: the
  \<open>ingestionJob\<close> of the response, or the exception raised by the call or by reading
  a response that has none.
  The other services can fail too: \<open>copy_object_error\<close>, \<open>update_item_error\<close> and
  \<open>invoke_error\<close> give the exception that copying an object, updating a
  DocumentRecord and invoking the Extraction Worker raise, if any.
\<close>

record job_details =
  job_id :: string
  job_state :: string

record ingest_env =
  ingest_clock :: "nat \<Rightarrow> int"
  BUCKET_NAME :: string
  DOCUMENT_ANALYSIS_LAMBDA :: string
  metadata_table_configured :: bool
  start_ingestion_job :: "nat \<Rightarrow> string \<Rightarrow> py_error + job_details"
  copy_object_error :: "string \<Rightarrow> string \<Rightarrow> py_error option"
  update_item_error :: "string \<Rightarrow> string \<Rightarrow> py_error option"
  invoke_error :: "string \<Rightarrow> py_error option"

text \<open>One entry of the S3 notification; a missing field reads as the empty string.\<close>

record s3_event_record =
  eventName :: string
  bucket_name :: string
  object_key :: string

text \<open>
  \<open>add_user_id_metadata_to_s3\<close> copies the object onto itself with new metadata; any
  failure, such as a missing object, is logged and answered with \<open>False\<close>.
\<close>

definition add_user_id_metadata_to_s3 ::
  "ingest_env \<Rightarrow> string \<Rightarrow> string \<Rightarrow> string \<Rightarrow> world \<Rightarrow> bool \<times> world" where
  "add_user_id_metadata_to_s3 env bucket s3_key user_id w =
     (case objects w (bucket, s3_key) of
        None \<Rightarrow> (False, w)
      | Some ob \<Rightarrow>
          (let ct = (case content_type ob of None \<Rightarrow> ''application/pdf'' | Some c \<Rightarrow> c);
               (t, w1) = utcnow (ingest_clock env) w
           in case copy_object_error env bucket s3_key of
                Some e \<Rightarrow> (False, w1)
              | None \<Rightarrow>
                  (True,
                   w1\<lparr>objects := (objects w1)((bucket, s3_key) \<mapsto>
                         ob\<lparr>metadata := [(''userId'', JStr user_id),
                                         (''ingestionTimestamp'', JTime t)],
                            content_type := Some ct\<rparr>)\<rparr>)))"

text \<open>
  \<open>update_document_status\<close>: skipped without a table or a user id; an exception of
  \<open>update_item\<close> is logged as non-critical.
\<close>

definition update_document_status ::
  "ingest_env \<Rightarrow> string option \<Rightarrow> string \<Rightarrow> string \<Rightarrow> string option \<Rightarrow> world \<Rightarrow> world" where
  "update_document_status env user_id s3_key status ingestion_job_id w =
     (if \<not> metadata_table_configured env \<or> \<not> present user_id then w
      else
        (let document_id = extract_document_id_from_s3_key s3_key;
             (t, w1) = utcnow (ingest_clock env) w
         in case update_item_error env (the user_id) document_id of
              Some e \<Rightarrow> w1
            | None \<Rightarrow>
                update_item (the user_id) document_id
                  (\<lambda>it. (if present ingestion_job_id
                          then it\<lparr>currentStatus := Some status, updatedAt := Some t,
                                  ingestionJobId := ingestion_job_id\<rparr>
                          else it\<lparr>currentStatus := Some status, updatedAt := Some t\<rparr>)) w1))"

text \<open>
  \<open>update_sidecar_status\<close>: the processing entry, then the audit event when a user id is
  known; an exception from either is logged as non-critical and what was written stays.
\<close>

definition update_sidecar_status ::
  "ingest_env \<Rightarrow> string \<Rightarrow> string \<Rightarrow> string \<Rightarrow> string option \<Rightarrow> world \<Rightarrow> world" where
  "update_sidecar_status env s3_key status details user_id w =
     (case append_processing_status (ingest_clock env) (BUCKET_NAME env) s3_key status details
             None w of
        (Inl e, w1) \<Rightarrow> w1
      | (Inr u, w1) \<Rightarrow>
          if present user_id then
            snd (append_audit_event (ingest_clock env) (BUCKET_NAME env) s3_key status
                   (the user_id)
                   [(''s3Bucket'', JStr (BUCKET_NAME env)), (''s3Key'', JStr s3_key)] w1)
          else w1)"

text \<open>
  \<open>invoke_document_analysis\<close>: skipped without a function name; an exception of the
  invocation is logged and goes no further.
\<close>

definition invoke_document_analysis :: "ingest_env \<Rightarrow> string \<Rightarrow> string \<Rightarrow> string \<Rightarrow> world \<Rightarrow> world" where
  "invoke_document_analysis env bucket s3_key ingestion_job_id w =
     (if DOCUMENT_ANALYSIS_LAMBDA env = [] then w
      else
        (case invoke_error env s3_key of
           Some e \<Rightarrow> w
         | None \<Rightarrow>
             w\<lparr>invocations := invocations w @
                  [JObj [(''s3Bucket'', JStr bucket), (''s3Key'', JStr s3_key),
                         (''ingestionJobId'', JStr ingestion_job_id)]]\<rparr>))"

text \<open>
  \<open>process_s3_record\<close> for one entry; \<open>request_id\<close> is \<open>context.aws_request_id\<close>. Its
  body is written in three parts: \<open>prepare_ingestion\<close> is what it does with a document
  before it calls the ingestion service, \<open>finish_ingestion\<close> what it does with the job
  the service returned. The call itself is the one step outside a \<open>try\<close>: its exception
  leaves the function.
\<close>

definition prepare_ingestion :: "ingest_env \<Rightarrow> string \<Rightarrow> string \<Rightarrow> world \<Rightarrow> world" where
  "prepare_ingestion env bucket s3_key w =
     (let user_id = extract_user_id_from_s3_key s3_key;
          w1 = (if present user_id
                then snd (add_user_id_metadata_to_s3 env bucket s3_key
                            (the user_id) w)
                else w);
          w2 = update_document_status env user_id s3_key ''upload_complete'' None w1
      in update_sidecar_status env s3_key ''ingestion_started''
           ''Starting Knowledge Base ingestion'' user_id w2)"

definition finish_ingestion ::
  "ingest_env \<Rightarrow> string \<Rightarrow> string \<Rightarrow> job_details \<Rightarrow> world \<Rightarrow> world" where
  "finish_ingestion env bucket s3_key job w =
     (let user_id = extract_user_id_from_s3_key s3_key;
          w5 = update_sidecar_status env s3_key ''ingestion_in_progress''
                 (''Ingestion job '' @ job_id job @ '' in progress'') None w;
          w6 = update_document_status env user_id s3_key ''ingestion_in_progress''
                 (Some (job_id job)) w5
      in invoke_document_analysis env bucket s3_key (job_id job) w6)"

definition process_s3_record ::
  "ingest_env \<Rightarrow> s3_event_record \<Rightarrow> string \<Rightarrow> world \<Rightarrow> job_details option outcome" where
  "process_s3_record env record request_id w =
     (if \<not> startswith (eventName record) ''ObjectCreated'' then (Inr None, w)
      else if is_sidecar_file (object_key record) then (Inr None, w)
      else
        (let w3 = prepare_ingestion env (bucket_name record) (object_key record) w;
             w4 = w3\<lparr>ingestion_calls := ingestion_calls w3 @ [request_id]\<rparr>
         in case start_ingestion_job env (length (ingestion_calls w3)) request_id of
              Inl e \<Rightarrow> (Inl e, w4)
            | Inr job \<Rightarrow>
                (Inr (Some job),
                 finish_ingestion env (bucket_name record) (object_key record) job w4)))"

text \<open>
  The handler's loop over \<open>event['Records']\<close>, collecting the job details. There is no
  \<open>try\<close> around one record: an exception ends the loop and reaches the handler's
  \<open>except\<close>, which answers with the error payload.
\<close>

fun process_records ::
  "ingest_env \<Rightarrow> string \<Rightarrow> s3_event_record list \<Rightarrow> job_details list \<Rightarrow> world
     \<Rightarrow> job_details list outcome" where
  "process_records env request_id [] ingestion_jobs w = (Inr ingestion_jobs, w)"
| "process_records env request_id (record # rest) ingestion_jobs w =
     (case process_s3_record env record request_id w of
        (Inl e, w1) \<Rightarrow> (Inl e, w1)
      | (Inr None, w1) \<Rightarrow> process_records env request_id rest ingestion_jobs w1
      | (Inr (Some job), w1) \<Rightarrow> process_records env request_id rest (ingestion_jobs @ [job]) w1)"

definition job_json :: "job_details \<Rightarrow> json" where
  "job_json job = JObj [(''ingestionJobId'', JStr (job_id job)), (''status'', JStr (job_state job))]"

definition ingest_lambda_handler ::
  "ingest_env \<Rightarrow> s3_event_record list \<Rightarrow> string \<Rightarrow> world \<Rightarrow> json \<times> world" where
  "ingest_lambda_handler env records request_id w =
     (case process_records env request_id records [] w of
        (Inl e, w1) \<Rightarrow> (JObj [(''error'', JStr (error_text e))], w1)
      | (Inr ingestion_jobs, w1) \<Rightarrow>
          (let response = [(''status'', JStr ''success''),
                           (''message'', JStr ''Ingestion processing complete'')]
           in (JObj (if length ingestion_jobs = 1
                     then response @ [(''ingestionJob'', job_json (hd ingestion_jobs))]
                     else if length ingestion_jobs > 1
                     then response @ [(''ingestionJobs'', JArr (map job_json ingestion_jobs))]
                     else response),
               w1)))"

text \<open>
  An ingestion service that refuses its first call, S3 creation notifications for the
  bucket \<open>docs\<close>, and a table with two documents of user \<open>u1\<close>.
\<close>

definition demo_ingest_env :: ingest_env where
  "demo_ingest_env =
     \<lparr>ingest_clock = demo_clock, BUCKET_NAME = ''docs'',
      DOCUMENT_ANALYSIS_LAMBDA = ''document-analysis'', metadata_table_configured = True,
      start_ingestion_job =
        (\<lambda>n token. if n = 0 then Inl (ServiceError ''Service unavailable'')
                    else Inr \<lparr>job_id = ''job-1'', job_state = ''STARTING''\<rparr>),
      copy_object_error = (\<lambda>bucket k. None),
      update_item_error = (\<lambda>uid did. None),
      invoke_error = (\<lambda>k. None)\<rparr>"

definition demo_record :: "string \<Rightarrow> s3_event_record" where
  "demo_record k = \<lparr>eventName = ''ObjectCreated:Put'', bucket_name = ''docs'', object_key = k\<rparr>"

definition demo_batch_world :: world where
  "demo_batch_world =
     demo_world [(empty_item ''u1'' ''d1'')\<lparr>currentStatus := Some ''upload_initiated''\<rparr>,
                 (empty_item ''u1'' ''d2'')\<lparr>currentStatus := Some ''upload_initiated''\<rparr>]"

text \<open>
  A day of failures: the ingestion service refuses its second call, and every update of a
  DocumentRecord and every invocation of the Extraction Worker raises.
\<close>

definition demo_flaky_env :: ingest_env where
  "demo_flaky_env =
     \<lparr>ingest_clock = demo_clock, BUCKET_NAME = ''docs'',
      DOCUMENT_ANALYSIS_LAMBDA = ''document-analysis'', metadata_table_configured = True,
      start_ingestion_job =
        (\<lambda>n token. if n = 1 then Inl (ServiceError ''Service unavailable'')
                    else Inr \<lparr>job_id = ''job-1'', job_state = ''STARTING''\<rparr>),
      copy_object_error = (\<lambda>bucket k. None),
      update_item_error = (\<lambda>uid did. Some (ServiceError ''Throttled'')),
      invoke_error = (\<lambda>k. Some (ServiceError ''Rate exceeded''))\<rparr>"

section \<open>Upload Initiator\<close>



text \<open>
  The handler's collaborators: the clock, \<open>uuid.uuid4()\<close> as the sequence of ids it
  draws, the presigned URL S3 issues for a key and content type, the projection of the
  caller's family profile that \<open>get_family_profile\<close> reads (empty on any failure),
  whether the logging table is configured, and \<open>put_item_error\<close>: the exception the
  table raises for an item that holds no float, if any (a number of more than 38 digits,
  an item too large, a throttled request).
\<close>

record upload_env =
  upload_clock :: "nat \<Rightarrow> int"
  DOCS_BUCKET :: string
  uuid4 :: "nat \<Rightarrow> string"
  generate_presigned_url :: "string \<Rightarrow> string \<Rightarrow> string"
  get_family_profile :: "string \<Rightarrow> json"
  logging_table_configured :: bool
  put_item_error :: "item \<Rightarrow> py_error option"




text \<open>
  The DynamoDB client turns an attribute value into its wire form before the request is
  sent, and raises \<open>TypeError\<close> for a Python \<open>float\<close> anywhere inside it.
\<close>

fun has_float :: "json \<Rightarrow> bool" where
  "has_float (JNum r) = True"
| "has_float (JArr xs) = list_ex has_float xs"
| "has_float (JObj kvs) = list_ex (\<lambda>kv. has_float (snd kv)) kvs"
| "has_float v = False"

text \<open>
  The handler's \<open>except\<close> clauses: a \<open>ValueError\<close> (a JSON decoding error is one) is
  answered with 401 and its text, anything else with 500.
\<close>

definition is_value_error :: "py_error \<Rightarrow> bool" where
  "is_value_error e =
     (case e of ValueError m \<Rightarrow> True | JSONDecodeError m \<Rightarrow> True
      | UnicodeDecodeError m \<Rightarrow> True | _ \<Rightarrow> False)"

definition upload_failure :: "py_error \<Rightarrow> response" where
  "upload_failure e =
     (if is_value_error e then error_response 401 (error_text e)
      else error_response 500 ''Internal server error'')"

text \<open>\<open>log_activity\<close>: best effort, skipped without a logging table.\<close>

definition log_activity ::
  "upload_env \<Rightarrow> string \<Rightarrow> string \<Rightarrow> (string \<times> json) list \<Rightarrow> world \<Rightarrow> world" where
  "log_activity env user_id request_type meta w =
     (if \<not> logging_table_configured env then w
      else
        (let activity_id = uuid4 env (uuids_drawn w);
             w1 = w\<lparr>uuids_drawn := Suc (uuids_drawn w)\<rparr>;
             (t, w2) = utcnow (upload_clock env) w1;
             entry = [(''id'', JStr activity_id), (''timestamp'', JTime t),
                      (''userId'', JStr user_id), (''requestId'', JStr activity_id),
                      (''requestType'', JStr request_type), (''timestampISO'', JTime t)]
         in w2\<lparr>activity_log := activity_log w2 @
                  [JObj (if meta = [] then entry else entry @ [(''metadata'', JObj meta)])]\<rparr>))"

text \<open>
  The handler's body once the presigned URL is there: the three sidecars, the
  DocumentRecord, the activity log entry, and the 200 response. An exception of
  \<open>put_item\<close> is answered with 500 and leaves the sidecars written before it.
\<close>

definition upload_store ::
  "upload_env \<Rightarrow> string \<Rightarrow> string \<Rightarrow> string \<Rightarrow> string \<Rightarrow> json \<Rightarrow> json \<Rightarrow> string
     \<Rightarrow> string \<Rightarrow> world \<Rightarrow> response \<times> world" where
  "upload_store env user_id filename document_type content_type_v file_size tags_v document_id
       presigned_url w0 =
     (let s3_key = upload_s3_key user_id document_type document_id filename;
          family_profile = get_family_profile env user_id;
          (now, w1) = utcnow (upload_clock env) w0;
          metadata_sidecar = JObj
            [(''metadataAttributes'',
                JObj [(''userid'', JStr user_id), (''documenttype'', JStr document_type),
                      (''uploadedat'', JTime now)]),
             (''documentId'', JStr document_id),
             (''userId'', JStr user_id),
             (''documentType'', JStr document_type),
             (''originalFilename'', JStr filename),
             (''s3Key'', JStr s3_key),
             (''uploadedAt'', JTime now),
             (''uploadedBy'', JStr ''parent''),
             (''fileSize'', file_size),
             (''mimeType'', JStr content_type_v),
             (''version'', JStr ''1.0''),
             (''tags'', tags_v),
             (''relatedDocuments'', JArr []),
             (''familyProfile'', family_profile)];
          processing_sidecar = JObj
            [(''statusChain'',
                JArr [JObj [(''status'', JStr ''upload_initiated''), (''timestamp'', JTime now),
                            (''details'', JStr ''Presigned URL generated, awaiting upload'')]]),
             (''currentStatus'', JStr ''upload_initiated''),
             (''errors'', JArr [])];
          audit_sidecar = JObj
            [(''events'',
                JArr [JObj [(''timestamp'', JTime now), (''action'', JStr ''upload_initiated''),
                            (''userId'', JStr user_id), (''documentId'', JStr document_id),
                            (''filename'', JStr filename)]])]
      in case write_sidecar (upload_clock env) (DOCS_BUCKET env) s3_key ''metadata''
                metadata_sidecar w1 of
           (Inl e, w2) \<Rightarrow> (upload_failure e, w2)
         | (Inr k1, w2) \<Rightarrow>
        (case write_sidecar (upload_clock env) (DOCS_BUCKET env) s3_key ''processing''
                processing_sidecar w2 of
           (Inl e, w3) \<Rightarrow> (upload_failure e, w3)
         | (Inr k2, w3) \<Rightarrow>
        (case write_sidecar (upload_clock env) (DOCS_BUCKET env) s3_key ''audit''
                audit_sidecar w3 of
           (Inl e, w4) \<Rightarrow> (upload_failure e, w4)
         | (Inr k3, w4) \<Rightarrow>
             (let record =
                    \<lparr>userId = user_id, documentId = document_id, s3Key = Some s3_key,
                     documentType = Some document_type, originalFilename = Some filename,
                     fileSize = Some file_size, mimeType = Some content_type_v,
                     sidecarFiles =
                       Some (map (\<lambda>(kind, suffix). (kind, s3_key @ suffix)) SIDECAR_TYPES),
                     currentStatus = Some ''upload_initiated'', ingestionJobId = None,
                     indexingDelayUntil = None, errorMessage = None,
                     extractionConfidence = None, hasActionItems = Some False,
                     tags = Some tags_v, createdAt = Some now, updatedAt = Some now\<rparr>
              in if has_float file_size \<or> has_float tags_v then
                   (upload_failure (TypeError ''Float types are not supported''), w4)
                 else
                   (case put_item_error env record of
                      Some e \<Rightarrow> (upload_failure e, w4)
                    | None \<Rightarrow>
                        (let w5 = put_item record w4;
                             w6 = log_activity env user_id ''document_upload''
                                    [(''documentId'', JStr document_id),
                                     (''filename'', JStr filename),
                                     (''documentType'', JStr document_type),
                                     (''fileSize'', file_size)] w5
                         in (\<lparr>statusCode = 200,
                              response_body = JObj
                                [(''documentId'', JStr document_id),
                                 (''uploadUrl'', JStr presigned_url),
                                 (''s3Key'', JStr s3_key),
                                 (''expiresIn'', JInt 3600),
                                 (''message'',
                                    JStr ''Upload URL generated successfully. Use PUT request to upload file.'')]\<rparr>,
                             w6)))))))"

text \<open>
  The accepted path from its start: the document id is drawn, and the presigned URL is
  asked for. The S3 client checks its parameters first: a \<open>ContentType\<close> that is no
  string is refused with a parameter validation error, before anything is written.
\<close>

definition upload_accept ::
  "upload_env \<Rightarrow> string \<Rightarrow> string \<Rightarrow> string \<Rightarrow> json \<Rightarrow> json \<Rightarrow> json \<Rightarrow> world
     \<Rightarrow> response \<times> world" where
  "upload_accept env user_id filename document_type content_type_v file_size tags_v w =
     (let document_id = uuid4 env (uuids_drawn w);
          w0 = w\<lparr>uuids_drawn := Suc (uuids_drawn w)\<rparr>;
          s3_key = upload_s3_key user_id document_type document_id filename
      in case content_type_v of
           JStr ct \<Rightarrow>
             upload_store env user_id filename document_type ct file_size tags_v document_id
               (generate_presigned_url env s3_key ct) w0
         | _ \<Rightarrow> (upload_failure (ServiceError ''Parameter validation failed''), w0))"







section \<open>Extraction Worker\<close>

subsection \<open>More string primitives\<close>

text \<open>
  \<open>s.find(c)\<close> and \<open>s.rfind(c)\<close> for one character (\<open>-1\<close> when it does not occur),
  and \<open>s[i:j]\<close> for indices inside the string.
\<close>

definition find_char :: "char \<Rightarrow> string \<Rightarrow> int" where
  "find_char c s = (if c \<in> set s then int (length (takeWhile (\<lambda>x. x \<noteq> c) s)) else - 1)"

definition rfind_char :: "char \<Rightarrow> string \<Rightarrow> int" where
  "rfind_char c s =
     (if c \<in> set s then int (length s) - 1 - int (length (takeWhile (\<lambda>x. x \<noteq> c) (rev s)))
      else - 1)"

definition slice :: "string \<Rightarrow> int \<Rightarrow> int \<Rightarrow> string" where
  "slice s i j = take (nat j - nat i) (drop (nat i) s)"

text \<open>
  \<open>s.strip()\<close> removes the characters for which \<open>str.isspace\<close> holds from both ends;
  below 256 these are tab to carriage return, the four separators \<open>0x1C\<close> to \<open>0x1F\<close>,
  the space, next line (\<open>0x85\<close>) and the no-break space (\<open>0xA0\<close>).
\<close>

definition is_space :: "char \<Rightarrow> bool" where
  "is_space c =
     (c \<in> set [CHR 0x09, CHR 0x0A, CHR 0x0B, CHR 0x0C, CHR 0x0D,
                CHR 0x1C, CHR 0x1D, CHR 0x1E, CHR 0x1F, CHR '' '', CHR 0x85, CHR 0xA0])"

definition strip :: "string \<Rightarrow> string" where
  "strip s = rev (dropWhile is_space (rev (dropWhile is_space s)))"

text \<open>
  \<open>s.lower()\<close>: below 256 the upper-case letters are \<open>A\<close> to \<open>Z\<close> and the accented
  capitals \<open>0xC0\<close> to \<open>0xDE\<close> without the multiplication sign \<open>0xD7\<close>; the lower-case
  letter lies 32 code points above.
\<close>

definition lower_char :: "char \<Rightarrow> char" where
  "lower_char c =
     (let n = (of_char c :: nat)
      in if (65 \<le> n \<and> n \<le> 90) \<or> (192 \<le> n \<and> n \<le> 214) \<or> (216 \<le> n \<and> n \<le> 222)
         then char_of (n + 32) else c)"

definition lower :: "string \<Rightarrow> string" where
  "lower s = map lower_char s"

text \<open>
  \<open>os.path.splitext(p)[1]\<close>: the extension starts at the last dot of the last path
  component, unless only dots precede it there.
\<close>

definition splitext_ext :: "string \<Rightarrow> string" where
  "splitext_ext p =
     (let base = last (split_on CHR ''/'' p) in
      if CHR ''.'' \<in> set base then
        (let stem = rsplit1_head CHR ''.'' base in
         if list_ex (\<lambda>c. c \<noteq> CHR ''.'') stem then drop (length stem) base else [])
      else [])"

subsection \<open>The handler's steps\<close>

text \<open>
  The worker's configuration and collaborators: environment variables, the clock, the
  table of extraction prompts, the inference service (the text of its answer, or the
  exception raised while calling it or reading the answer), and \<open>json.loads\<close> on a text
  that starts with an opening brace: the dictionary, or the exception it raises. That
  is \<open>JSONDecodeError\<close> for a text that is no JSON, \<open>RecursionError\<close> for one nested
  too deep, and a plain \<open>ValueError\<close> for an integer of more digits than the
  interpreter converts. \<open>json_dumps\<close> gives the bytes of a stored JSON body, and
  \<open>utf8_decode\<close> is \<open>bytes.decode('utf-8')\<close>: the text, or \<open>None\<close> for a
  \<open>UnicodeDecodeError\<close>.
\<close>

record analysis_env =
  analysis_clock :: "nat \<Rightarrow> int"
  ANALYSIS_BUCKET_NAME :: string
  analysis_table_configured :: bool
  MODEL_ID :: string
  EXTRACTION_PROMPTS :: "string \<Rightarrow> string"
  invoke_model :: "string \<Rightarrow> py_error + string"
  json_loads :: "string \<Rightarrow> py_error + (string \<times> json) list"
  json_dumps :: "json \<Rightarrow> string"
  utf8_decode :: "string \<Rightarrow> string option"

record analysis_event =
  ev_s3Bucket :: "string option"
  ev_s3Key :: "string option"
  ev_ingestionJobId :: "string option"

definition validate_environment :: "analysis_env \<Rightarrow> py_error + unit" where
  "validate_environment env =
     (if ANALYSIS_BUCKET_NAME env = []
      then Inl (ValueError ''BUCKET_NAME environment variable not configured'')
      else Inr ())"

definition validate_input :: "analysis_event \<Rightarrow> py_error + (string \<times> string \<times> string option)" where
  "validate_input event =
     (let s3_bucket = strip (case ev_s3Bucket event of None \<Rightarrow> [] | Some b \<Rightarrow> b);
          s3_key = strip (case ev_s3Key event of None \<Rightarrow> [] | Some k \<Rightarrow> k);
          key_parts = split_on CHR ''/'' s3_key;
          file_extension = lower (splitext_ext s3_key)
      in if s3_bucket = [] then Inl (ValueError ''s3Bucket parameter is required'')
         else if s3_key = [] then Inl (ValueError ''s3Key parameter is required'')
         else if length key_parts < 4 \<or> hd key_parts \<noteq> ''users''
           then Inl (ValueError (''Invalid s3Key format. Expected: users/{userId}/{documentType}/{filename}, got: '' @ s3_key))
         else if file_extension \<noteq> [] \<and>
                 file_extension \<notin> set [''.pdf'', ''.txt'', ''.doc'', ''.docx'']
           then Inl (ValueError (''Unsupported file type: '' @ file_extension @
                                  ''. Allowed types: .pdf, .txt, .doc, .docx''))
         else Inr (s3_bucket, s3_key, ev_ingestionJobId event))"

definition get_document_type_from_key :: "string \<Rightarrow> string" where
  "get_document_type_from_key s3_key =
     (case split_on CHR ''/'' s3_key of
        p0 # p1 # p2 # _ \<Rightarrow> p2
      | _ \<Rightarrow> ''other'')"

text \<open>
  \<open>extract_text_from_document\<close> reads the first 100000 bytes of the body and decodes
  them. A missing object and an empty body are \<open>ValueError\<close>s; bytes that do not decode,
  as when the 100000th byte falls inside a multi-byte character, give the placeholder
  text.
\<close>

definition body_bytes :: "analysis_env \<Rightarrow> s3_body \<Rightarrow> string" where
  "body_bytes env b = (case b of Json v \<Rightarrow> json_dumps env v | Utf8 s \<Rightarrow> s | Binary s \<Rightarrow> s)"

definition extract_text_from_document ::
  "analysis_env \<Rightarrow> string \<Rightarrow> string \<Rightarrow> world \<Rightarrow> py_error + string" where
  "extract_text_from_document env s3_bucket s3_key w =
     (if s3_bucket = [] \<or> s3_key = []
      then Inl (ValueError ''s3_bucket and s3_key are required for text extraction'')
      else
        (case objects w (s3_bucket, s3_key) of
           None \<Rightarrow> Inl (ValueError (''Document not found: '' @ s3_key))
         | Some ob \<Rightarrow>
             (let content = take 100000 (body_bytes env (body ob)) in
              if content = [] then Inl (ValueError ''Downloaded document is empty'')
              else
                (case utf8_decode env content of
                   Some decoded_content \<Rightarrow> Inr decoded_content
                 | None \<Rightarrow>
                     Inr ''[Binary PDF file - using Textract would extract full text]''))))"

text \<open>
  \<open>invoke_claude_for_extraction\<close>: the prompt, the call, and the search for JSON in the
  answer, from the first opening brace to the last closing one. Of the exceptions of
  \<open>json.loads\<close> only \<open>JSONDecodeError\<close> is caught there; any other leaves the function.
\<close>

definition extraction_fallback :: "string \<Rightarrow> string \<Rightarrow> json" where
  "extraction_fallback extracted_text marker =
     JObj [(''raw_response'', JStr extracted_text), (''error'', JStr marker)]"

definition parse_extracted :: "analysis_env \<Rightarrow> string \<Rightarrow> py_error + json" where
  "parse_extracted env extracted_text =
     (let start_idx = find_char CHR ''{'' extracted_text;
          end_idx = rfind_char CHR ''}'' extracted_text + 1
      in if start_idx \<noteq> - 1 \<and> end_idx > start_idx then
           (case json_loads env (slice extracted_text start_idx end_idx) of
              Inr extracted_data \<Rightarrow> Inr (JObj extracted_data)
            | Inl e \<Rightarrow>
                (case e of
                   JSONDecodeError m \<Rightarrow> Inr (extraction_fallback extracted_text ''Invalid JSON'')
                 | _ \<Rightarrow> Inl e))
         else Inr (extraction_fallback extracted_text ''No JSON found''))"

definition extraction_prompt :: "analysis_env \<Rightarrow> string \<Rightarrow> string \<Rightarrow> string" where
  "extraction_prompt env document_text document_type =
     (let document_type =
            (if document_type = [] then ''other''
             else if document_type \<notin> set [''iep'', ''aba_report'', ''medical_record'', ''other'']
             then ''other'' else document_type);
          prompt = EXTRACTION_PROMPTS env document_type;
          truncated_text = take 15000 document_text
      in prompt @ [CHR 0x0A, CHR 0x0A] @ ''Document text:'' @ [CHR 0x0A]
         @ truncated_text @ [CHR 0x0A, CHR 0x0A]
         @ ''Extract the information and return JSON only.'')"

definition invoke_claude_for_extraction :: "analysis_env \<Rightarrow> string \<Rightarrow> string \<Rightarrow> py_error + json" where
  "invoke_claude_for_extraction env document_text document_type =
     (if document_text = [] then Inl (ValueError ''document_text cannot be empty'')
      else
        (case invoke_model env (extraction_prompt env document_text document_type) of
           Inl e \<Rightarrow> Inl e
         | Inr extracted_text \<Rightarrow> parse_extracted env extracted_text))"

text \<open>\<open>'error' in extracted_data\<close> and the confidence the handler derives from it.\<close>

definition has_error_key :: "json \<Rightarrow> bool" where
  "has_error_key d = (case d of JObj kvs \<Rightarrow> ''error'' \<in> fst ` set kvs | _ \<Rightarrow> False)"

definition confidence_of :: "json \<Rightarrow> real" where
  "confidence_of extracted_data = (if \<not> has_error_key extracted_data then 0.85 else 0.50)"

definition confidence_text :: "real \<Rightarrow> string" where
  "confidence_text c = (if c = 0.85 then ''0.85'' else ''0.5'')"

text \<open>
  \<open>Table.update_item\<close> with its expression attribute values: the client serialises the
  values before it sends the request and raises \<open>TypeError\<close> for a \<open>float\<close> among
  them; nothing is sent then.
\<close>

definition update_item_with ::
  "string \<Rightarrow> string \<Rightarrow> (string \<times> json) list \<Rightarrow> (item \<Rightarrow> item) \<Rightarrow> world \<Rightarrow> unit outcome" where
  "update_item_with uid did vals f w =
     (if list_ex (\<lambda>kv. has_float (snd kv)) vals
      then (Inl (TypeError ''Float types are not supported. Use Decimal types instead.''), w)
      else (Inr (), update_item uid did f w))"

text \<open>
  \<open>update_document_metadata\<close> passes the confidence, a \<open>float\<close>, as \<open>:conf\<close>; the
  exception of the update is logged and goes no further.
\<close>

definition update_document_metadata :: "analysis_env \<Rightarrow> string \<Rightarrow> real \<Rightarrow> int \<Rightarrow> world \<Rightarrow> world" where
  "update_document_metadata env s3_key confidence now w =
     (if \<not> analysis_table_configured env then w
      else snd (update_item_with (analysis_user_id s3_key) (analysis_document_id s3_key)
                  [('':status'', JStr ''ai_analysis_complete''), ('':conf'', JNum confidence),
                   ('':now'', JTime now)]
                  (\<lambda>it. it\<lparr>currentStatus := Some ''ai_analysis_complete'',
                           extractionConfidence := Some confidence,
                           updatedAt := Some now\<rparr>) w))"

text \<open>
  \<open>update_sidecar_error\<close>: skipped before the key is known; whatever the append raises
  is swallowed.
\<close>

definition update_sidecar_error ::
  "analysis_env \<Rightarrow> string option \<Rightarrow> string \<Rightarrow> string \<Rightarrow> world \<Rightarrow> world" where
  "update_sidecar_error env s3_key status error_message w =
     (if \<not> present s3_key then w
      else
        (let (t, w1) = utcnow (analysis_clock env) w
         in snd (append_processing_status (analysis_clock env) (ANALYSIS_BUCKET_NAME env)
                   (the s3_key) status (''Error: '' @ error_message)
                   (Some [(''error'', JStr error_message), (''timestamp'', JTime t)]) w1)))"

text \<open>
  The handler's two \<open>except\<close> clauses: a \<open>ValueError\<close> is a validation error (400),
  anything else an unexpected one (500); both are recorded in the processing sidecar.
\<close>

definition analysis_failure ::
  "analysis_env \<Rightarrow> string option \<Rightarrow> py_error \<Rightarrow> world \<Rightarrow> response \<times> world" where
  "analysis_failure env s3_key e w =
     (if is_value_error e then
        (error_response 400 (''Invalid input: '' @ error_text e),
         update_sidecar_error env s3_key ''validation_failed''
           (''Validation error: '' @ error_text e) w)
      else
        (error_response 500
           ''An unexpected error occurred during document analysis. Please try again later.'',
         update_sidecar_error env s3_key ''ai_analysis_failed'' (error_text e) w))"

text \<open>
  The handler's body from the extracted data on: confidence, the extracted sidecar, the
  \<open>ai_analysis_complete\<close> entry, the audit event, the DocumentRecord, the 200 response.
\<close>

definition extracted_sidecar :: "analysis_env \<Rightarrow> int \<Rightarrow> string \<Rightarrow> json \<Rightarrow> json" where
  "extracted_sidecar env now document_type extracted_data =
     JObj [(''extractionTimestamp'', JTime now),
           (''extractionModel'', JStr (MODEL_ID env)),
           (''confidence'', JNum (confidence_of extracted_data)),
           (''documentType'', JStr document_type),
           (''data'', extracted_data)]"

definition store_extraction ::
  "analysis_env \<Rightarrow> string \<Rightarrow> string \<Rightarrow> json \<Rightarrow> world \<Rightarrow> response \<times> world" where
  "store_extraction env s3_key document_type extracted_data w =
     (let confidence = confidence_of extracted_data;
          (now, w1) = utcnow (analysis_clock env) w
      in case write_sidecar (analysis_clock env) (ANALYSIS_BUCKET_NAME env) s3_key ''extracted''
                (extracted_sidecar env now document_type extracted_data) w1 of
           (Inl e, w2) \<Rightarrow> analysis_failure env (Some s3_key) e w2
         | (Inr k, w2) \<Rightarrow>
        (case append_processing_status (analysis_clock env) (ANALYSIS_BUCKET_NAME env) s3_key
                ''ai_analysis_complete''
                (''Extraction successful, confidence: '' @ confidence_text confidence) None w2 of
           (Inl e, w3) \<Rightarrow> analysis_failure env (Some s3_key) e w3
         | (Inr u, w3) \<Rightarrow>
        (case append_audit_event (analysis_clock env) (ANALYSIS_BUCKET_NAME env) s3_key
                ''ai_extraction_complete'' ''system''
                [(''confidence'', JNum confidence), (''documentType'', JStr document_type)] w3 of
           (Inl e, w4) \<Rightarrow> analysis_failure env (Some s3_key) e w4
         | (Inr u, w4) \<Rightarrow>
             (\<lparr>statusCode = 200,
               response_body = JObj
                 [(''status'', JStr ''success''), (''s3Key'', JStr s3_key),
                  (''documentType'', JStr document_type), (''confidence'', JNum confidence),
                  (''extractionTimestamp'', JTime now)]\<rparr>,
              update_document_metadata env s3_key confidence now w4))))"

definition analysis_lambda_handler ::
  "analysis_env \<Rightarrow> analysis_event \<Rightarrow> world \<Rightarrow> response \<times> world" where
  "analysis_lambda_handler env event w =
     (case validate_environment env of
        Inl e \<Rightarrow> analysis_failure env None e w
      | Inr u \<Rightarrow>
     (case validate_input event of
        Inl e \<Rightarrow> analysis_failure env None e w
      | Inr (s3_bucket, s3_key, ingestion_job_id) \<Rightarrow>
     (case append_processing_status (analysis_clock env) (ANALYSIS_BUCKET_NAME env) s3_key
             ''ai_analysis_started'' ''Starting AI extraction with Claude'' None w of
        (Inl e, w1) \<Rightarrow> analysis_failure env (Some s3_key) e w1
      | (Inr u, w1) \<Rightarrow>
          (let document_type = get_document_type_from_key s3_key in
           case extract_text_from_document env s3_bucket s3_key w1 of
             Inl e \<Rightarrow> analysis_failure env (Some s3_key) e w1
           | Inr document_text \<Rightarrow>
               (case invoke_claude_for_extraction env document_text document_type of
                  Inl e \<Rightarrow> analysis_failure env (Some s3_key) e w1
                | Inr extracted_data \<Rightarrow>
                    store_extraction env s3_key document_type extracted_data w1)))))"

text \<open>
  What a reader finds in the extracted sidecar: the data and the confidence. The audit
  sidecar lets an event be appended when it is missing, empty, or an object whose
  \<open>events\<close> is a list.
\<close>

definition audit_appendable :: "string \<Rightarrow> string \<Rightarrow> world \<Rightarrow> bool" where
  "audit_appendable bucket document_s3_key w =
     (case read_sidecar bucket document_s3_key ''audit'' w of
        Inl e \<Rightarrow> False
      | Inr r \<Rightarrow> has_list (or_default r (JObj [(''events'', JArr [])])) ''events'')"

definition stored_data :: "string \<Rightarrow> string \<Rightarrow> world \<Rightarrow> json option" where
  "stored_data bucket document_s3_key w =
     (case read_sidecar bucket document_s3_key ''extracted'' w of
        Inr (Some sc) \<Rightarrow> (case subscript sc ''data'' of Inr d \<Rightarrow> Some d | _ \<Rightarrow> None)
      | _ \<Rightarrow> None)"

definition stored_confidence :: "string \<Rightarrow> string \<Rightarrow> world \<Rightarrow> json option" where
  "stored_confidence bucket document_s3_key w =
     (case read_sidecar bucket document_s3_key ''extracted'' w of
        Inr (Some sc) \<Rightarrow> (case subscript sc ''confidence'' of Inr c \<Rightarrow> Some c | _ \<Rightarrow> None)
      | _ \<Rightarrow> None)"

subsection \<open>A response without a parseable JSON object\<close>

text \<open>
  The non-empty contiguous pieces of a text; the text contains a parseable JSON object
  when the decoder accepts one of them.
\<close>

definition substrings :: "string \<Rightarrow> string list" where
  "substrings s =
     concat (map (\<lambda>i. map (\<lambda>n. take n (drop i s)) [1 ..< Suc (length s - i)]) [0 ..< length s])"

definition contains_json_object ::
  "(string \<Rightarrow> py_error + (string \<times> json) list) \<Rightarrow> string \<Rightarrow> bool" where
  "contains_json_object loads s =
     list_ex (\<lambda>t. case loads t of Inr d \<Rightarrow> True | Inl e \<Rightarrow> False) (substrings s)"

subsection \<open>Sample collaborators\<close>

text \<open>
  A decoder for JSON texts without escapes, fractions and exponents, enough for the
  sample answers below: on such texts it accepts what \<open>json.loads\<close> accepts. The fuel
  bounds the number of nested calls, each of which consumes a character.
\<close>

definition is_json_ws :: "char \<Rightarrow> bool" where
  "is_json_ws c = (c \<in> set [CHR '' '', CHR 0x09, CHR 0x0A, CHR 0x0D])"

definition is_digit :: "char \<Rightarrow> bool" where
  "is_digit c = (c \<in> set ''0123456789'')"

fun decode_string :: "string \<Rightarrow> string \<Rightarrow> (string \<times> string) option" where
  "decode_string [] acc = None"
| "decode_string (c # cs) acc =
     (if c = CHR 0x22 then Some (acc, cs)
      else if c = CHR 0x5C \<or> c \<in> set [CHR 0x09, CHR 0x0A, CHR 0x0D] then None
      else decode_string cs (acc @ [c]))"

definition digits_value :: "string \<Rightarrow> nat" where
  "digits_value ds = foldl (\<lambda>n c. 10 * n + (of_char c - 48)) 0 ds"

definition decode_number :: "string \<Rightarrow> (json \<times> string) option" where
  "decode_number s =
     (let neg = (s \<noteq> [] \<and> hd s = CHR ''-'');
          t = (if neg then tl s else s);
          ds = takeWhile is_digit t;
          rest = dropWhile is_digit t
      in if ds = [] \<or> (length ds > 1 \<and> hd ds = CHR ''0'') then None
         else if rest \<noteq> [] \<and> hd rest \<in> set ''.eE'' then None
         else Some (JInt (if neg then - int (digits_value ds) else int (digits_value ds)),
                    rest))"

fun decode_value :: "nat \<Rightarrow> string \<Rightarrow> (json \<times> string) option"
  and decode_members :: "nat \<Rightarrow> string \<Rightarrow> (string \<times> json) list \<Rightarrow> (json \<times> string) option"
  and decode_elements :: "nat \<Rightarrow> string \<Rightarrow> json list \<Rightarrow> (json \<times> string) option" where
  "decode_value 0 s = None"
| "decode_value (Suc n) s =
     (case dropWhile is_json_ws s of
        [] \<Rightarrow> None
      | c # r \<Rightarrow>
          if c = CHR ''{'' then
            (case dropWhile is_json_ws r of
               [] \<Rightarrow> None
             | c' # r' \<Rightarrow> if c' = CHR ''}'' then Some (JObj [], r') else decode_members n r [])
          else if c = CHR ''['' then
            (case dropWhile is_json_ws r of
               [] \<Rightarrow> None
             | c' # r' \<Rightarrow> if c' = CHR '']'' then Some (JArr [], r') else decode_elements n r [])
          else if c = CHR 0x22 then
            (case decode_string r [] of
               None \<Rightarrow> None
             | Some (str, r') \<Rightarrow> Some (JStr str, r'))
          else if startswith (c # r) ''true'' then Some (JBool True, drop 4 (c # r))
          else if startswith (c # r) ''false'' then Some (JBool False, drop 5 (c # r))
          else if startswith (c # r) ''null'' then Some (JNull, drop 4 (c # r))
          else decode_number (c # r))"
| "decode_members 0 s acc = None"
| "decode_members (Suc n) s acc =
     (case dropWhile is_json_ws s of
        [] \<Rightarrow> None
      | c # r \<Rightarrow>
          if c \<noteq> CHR 0x22 then None
          else
            (case decode_string r [] of
               None \<Rightarrow> None
             | Some (k, r1) \<Rightarrow>
                 (case dropWhile is_json_ws r1 of
                    [] \<Rightarrow> None
                  | c1 # r2 \<Rightarrow>
                      if c1 \<noteq> CHR '':'' then None
                      else
                        (case decode_value n r2 of
                           None \<Rightarrow> None
                         | Some (v, r3) \<Rightarrow>
                             (case dropWhile is_json_ws r3 of
                                [] \<Rightarrow> None
                              | c3 # r4 \<Rightarrow>
                                  if c3 = CHR '','' then decode_members n r4 (AList.update k v acc)
                                  else if c3 = CHR ''}'' then Some (JObj (AList.update k v acc), r4)
                                  else None)))))"
| "decode_elements 0 s acc = None"
| "decode_elements (Suc n) s acc =
     (case decode_value n s of
        None \<Rightarrow> None
      | Some (v, r1) \<Rightarrow>
          (case dropWhile is_json_ws r1 of
             [] \<Rightarrow> None
           | c # r2 \<Rightarrow>
               if c = CHR '','' then decode_elements n r2 (acc @ [v])
               else if c = CHR '']'' then Some (JArr (acc @ [v]), r2)
               else None))"

definition decode_object :: "string \<Rightarrow> py_error + (string \<times> json) list" where
  "decode_object s =
     (case decode_value (Suc (length s)) s of
        Some (JObj kvs, rest) \<Rightarrow>
          if dropWhile is_json_ws rest = [] then Inr kvs
          else Inl (JSONDecodeError ''Extra data'')
      | _ \<Rightarrow> Inl (JSONDecodeError ''Expecting value''))"

text \<open>A decoder for ASCII bytes, the bytes of the sample documents.\<close>

definition decode_ascii :: "string \<Rightarrow> string option" where
  "decode_ascii b = (if list_all (\<lambda>c. (of_char c :: nat) < 128) b then Some b else None)"

text \<open>
  A worker whose model answers every prompt with the same text, a notification for a
  plain-text document of user \<open>u1\<close>, and two worlds that hold the document and its
  DocumentRecord; in the second the audit sidecar is a list, not an object. The document
  is plain text, so the serialiser is never called.
\<close>

definition demo_analysis_env :: "string \<Rightarrow> analysis_env" where
  "demo_analysis_env answer =
     \<lparr>analysis_clock = demo_clock, ANALYSIS_BUCKET_NAME = ''docs'',
      analysis_table_configured = True, MODEL_ID = ''model-1'',
      EXTRACTION_PROMPTS = (\<lambda>t. ''Extract key information from this document in JSON format:''),
      invoke_model = (\<lambda>prompt. Inr answer),
      json_loads = decode_object,
      json_dumps = (\<lambda>v. ''{}''),
      utf8_decode = decode_ascii\<rparr>"

definition demo_analysis_event :: analysis_event where
  "demo_analysis_event =
     \<lparr>ev_s3Bucket = Some ''docs'', ev_s3Key = Some ''users/u1/other/d1-a.txt'',
      ev_ingestionJobId = Some ''job-1''\<rparr>"

definition demo_document_world :: world where
  "demo_document_world =
     (demo_world [demo_item ''ingestion_in_progress''])
       \<lparr>objects := [(''docs'', ''users/u1/other/d1-a.txt'') \<mapsto>
            \<lparr>body = Utf8 ''Wellness plan for the spring term'',
             content_type = Some ''text/plain'', metadata = []\<rparr>]\<rparr>"

definition demo_audit_list_world :: world where
  "demo_audit_list_world =
     demo_document_world
       \<lparr>objects := (objects demo_document_world)
          ((''docs'', ''users/u1/other/d1-a.txt.audit.json'') \<mapsto>
             \<lparr>body = Json (JArr [JStr ''upload_initiated'']),
              content_type = Some ''application/json'', metadata = []\<rparr>)\<rparr>"

section \<open>Properties\<close>

lemma endswith_iff: "endswith s suf \<longleftrightarrow> (\<exists>p. s = p @ suf)"
proof
  assume h: "endswith s suf"
  then have "s = take (length s - length suf) s @ suf"
    unfolding endswith_def by (metis append_take_drop_id)
  then show "\<exists>p. s = p @ suf" ..
next
  assume "\<exists>p. s = p @ suf"
  then show "endswith s suf" unfolding endswith_def by auto
qed

lemma take_prefix_iff: "take (length ys) xs = ys \<longleftrightarrow> (\<exists>p. xs = ys @ p)"
  by (metis append_eq_conv_conj append_take_drop_id)

lemma endswith_rev: "endswith s suf \<longleftrightarrow> take (length suf) (rev s) = rev suf"
proof -
  have "endswith s suf \<longleftrightarrow> (\<exists>p. s = p @ suf)" by (rule endswith_iff)
  also have "\<dots> \<longleftrightarrow> (\<exists>p. rev s = rev suf @ p)"
  proof
    assume "\<exists>p. s = p @ suf"
    then obtain p where "s = p @ suf" ..
    then have "rev s = rev suf @ rev p" by simp
    then show "\<exists>p. rev s = rev suf @ p" ..
  next
    assume "\<exists>p. rev s = rev suf @ p"
    then obtain p where "rev s = rev suf @ p" ..
    then have "rev (rev s) = rev (rev suf @ p)" by (rule arg_cong)
    then have "s = rev p @ suf" by simp
    then show "\<exists>p. s = p @ suf" ..
  qed
  also have "\<dots> \<longleftrightarrow> take (length (rev suf)) (rev s) = rev suf"
    by (rule take_prefix_iff [symmetric])
  finally show ?thesis by simp
qed

lemma endswith_append_rev:
  "endswith (k @ s) suf \<longleftrightarrow> take (length suf) (rev s @ rev k) = rev suf"
  by (simp add: endswith_rev)

lemma drop_last_n_append: "s \<noteq> [] \<Longrightarrow> drop_last_n (k @ s) (length s) = k"
  by (simp add: drop_last_n_def)

lemma roundtrip_metadata:
  "get_document_from_sidecar_key (k @ ''.metadata.json'') = Some k"
  by (simp add: get_document_from_sidecar_key_def SIDECAR_TYPES_def endswith_append_rev
      drop_last_n_def)

lemma roundtrip_extracted:
  "get_document_from_sidecar_key (k @ ''.extracted.json'') = Some k"
  by (simp add: get_document_from_sidecar_key_def SIDECAR_TYPES_def endswith_append_rev
      drop_last_n_def)

lemma roundtrip_processing:
  "get_document_from_sidecar_key (k @ ''.processing.json'') = Some k"
  by (simp add: get_document_from_sidecar_key_def SIDECAR_TYPES_def endswith_append_rev
      drop_last_n_def)

lemma roundtrip_insights:
  "get_document_from_sidecar_key (k @ ''.insights.json'') = Some k"
  by (simp add: get_document_from_sidecar_key_def SIDECAR_TYPES_def endswith_append_rev
      drop_last_n_def)

lemma roundtrip_audit:
  "get_document_from_sidecar_key (k @ ''.audit.json'') = Some k"
  by (simp add: get_document_from_sidecar_key_def SIDECAR_TYPES_def endswith_append_rev
      drop_last_n_def)

lemma is_sidecar_file_iff:
  "is_sidecar_file k \<longleftrightarrow>
     (\<exists>suffix \<in> {''.metadata.json'', ''.extracted.json'', ''.processing.json'',
                  ''.insights.json'', ''.audit.json''}. \<exists>p. k = p @ suffix)"
  by (simp add: is_sidecar_file_def SIDECAR_TYPES_def endswith_iff)

text \<open>
  Claim C4. Sidecar classification is total and invertible: \<open>is_sidecar_file k\<close> holds
  exactly when \<open>k\<close> ends in one of the five fixed suffixes, and for each of the five
  sidecar kinds \<open>get_sidecar_key\<close> succeeds and \<open>get_document_from_sidecar_key\<close>
  returns the primary key it was derived from.
\<close>

theorem sidecar_classification_invertible:
  "(is_sidecar_file k \<longleftrightarrow>
      (\<exists>suffix \<in> {''.metadata.json'', ''.extracted.json'', ''.processing.json'',
                   ''.insights.json'', ''.audit.json''}. \<exists>p. k = p @ suffix)) \<and>
   (\<forall>kind \<in> {''metadata'', ''extracted'', ''processing'', ''insights'', ''audit''}.
      \<exists>sk. get_sidecar_key k kind = Inr sk \<and> get_document_from_sidecar_key sk = Some k)"
proof
  show "is_sidecar_file k \<longleftrightarrow>
      (\<exists>suffix \<in> {''.metadata.json'', ''.extracted.json'', ''.processing.json'',
                   ''.insights.json'', ''.audit.json''}. \<exists>p. k = p @ suffix)"
    by (rule is_sidecar_file_iff)
next
  have m: "get_sidecar_key k ''metadata'' = Inr (k @ ''.metadata.json'')"
    by (simp add: get_sidecar_key_def SIDECAR_TYPES_def)
  have e: "get_sidecar_key k ''extracted'' = Inr (k @ ''.extracted.json'')"
    by (simp add: get_sidecar_key_def SIDECAR_TYPES_def)
  have p: "get_sidecar_key k ''processing'' = Inr (k @ ''.processing.json'')"
    by (simp add: get_sidecar_key_def SIDECAR_TYPES_def)
  have i: "get_sidecar_key k ''insights'' = Inr (k @ ''.insights.json'')"
    by (simp add: get_sidecar_key_def SIDECAR_TYPES_def)
  have a: "get_sidecar_key k ''audit'' = Inr (k @ ''.audit.json'')"
    by (simp add: get_sidecar_key_def SIDECAR_TYPES_def)
  show "\<forall>kind \<in> {''metadata'', ''extracted'', ''processing'', ''insights'', ''audit''}.
      \<exists>sk. get_sidecar_key k kind = Inr sk \<and> get_document_from_sidecar_key sk = Some k"
    using m e p i a roundtrip_metadata roundtrip_extracted roundtrip_processing
      roundtrip_insights roundtrip_audit
    by blast
qed

theorem sidecar_classification_invertible_witness:
  "\<exists>sk. get_sidecar_key ''users/u1/other/a.pdf'' ''processing'' = Inr sk \<and>
        get_document_from_sidecar_key sk = Some ''users/u1/other/a.pdf''"
proof -
  have k: "''processing'' \<in> {''metadata'', ''extracted'', ''processing'', ''insights'', ''audit''}"
    by simp
  from sidecar_classification_invertible [of "''users/u1/other/a.pdf''"]
  have "\<forall>kind \<in> {''metadata'', ''extracted'', ''processing'', ''insights'', ''audit''}.
      \<exists>sk. get_sidecar_key ''users/u1/other/a.pdf'' kind = Inr sk \<and>
           get_document_from_sidecar_key sk = Some ''users/u1/other/a.pdf''"
    by (rule conjunct2)
  then show ?thesis using k by (rule bspec)
qed

text \<open>
  Claim C10. For the key the Upload Initiator derives from a hyphenated UUID, the
  Ingestion Trigger recovers the whole UUID as document id, while the Extraction Worker
  takes the text before the first hyphen, the UUID's first group only: the two ids
  differ, so the worker's update addresses another DocumentRecord.
\<close>

theorem document_id_mismatch:
  "is_uuid ''123e4567-e89b-42d3-a456-426614174000'' \<and>
   extract_document_id_from_s3_key
     (upload_s3_key ''u1'' ''other'' ''123e4567-e89b-42d3-a456-426614174000'' ''report.pdf'')
     = ''123e4567-e89b-42d3-a456-426614174000'' \<and>
   analysis_document_id
     (upload_s3_key ''u1'' ''other'' ''123e4567-e89b-42d3-a456-426614174000'' ''report.pdf'')
     = ''123e4567''"
  by (simp add: is_uuid_def is_hex_def extract_document_id_from_s3_key_def
      analysis_document_id_def upload_s3_key_def)

lemma get_item_update_item:
  "get_item (update_item uid did f w) uid did =
     Some (f (case get_item w uid did of None \<Rightarrow> empty_item uid did | Some it \<Rightarrow> it))"
  by (simp add: get_item_def update_item_def Let_def update_conv')

lemma get_item_update_item_other:
  "k \<noteq> (uid, did) \<Longrightarrow> map_of (table (update_item uid did f w)) k = map_of (table w) k"
  by (simp add: get_item_def update_item_def Let_def update_conv')

lemma get_item_utcnow [simp]: "get_item (snd (utcnow clock w)) = get_item w"
  by (simp add: get_item_def utcnow_def fun_eq_iff)

lemma get_item_ticks [simp]: "get_item (w\<lparr>ticks := n\<rparr>) = get_item w"
  by (simp add: get_item_def fun_eq_iff)

text \<open>
  Claim C2. For a polled record whose job reports \<open>COMPLETE\<close>: from
  \<open>ingestion_in_progress\<close> the poller stores \<open>indexing_wait\<close> and a deadline 15 seconds
  after its clock reading (the record is not marked ready); from \<open>indexing_wait\<close> with
  a deadline, a poll strictly before the deadline leaves the table as it is and a poll at
  or after it stores \<open>ingestion_complete\<close> and removes the deadline. A job that reports
  \<open>STARTING\<close> or \<open>IN_PROGRESS\<close> changes nothing.
\<close>

theorem poller_complete_settle:
  assumes job_id: "present (ingestionJobId doc)"
    and job: "get_ingestion_job (the (ingestionJobId doc)) = Inr job"
    and stored: "get_item w (userId doc) (documentId doc) = Some doc"
  shows "(job_status job = Some ''COMPLETE'' \<longrightarrow>
            (currentStatus doc = Some ''ingestion_in_progress'' \<longrightarrow>
               get_item (check_document clock get_ingestion_job doc w) (userId doc) (documentId doc) =
                 Some (doc\<lparr>currentStatus := Some ''indexing_wait'',
                           indexingDelayUntil := Some (clock (ticks w) + 15 * 1000000),
                           updatedAt := Some (clock (Suc (ticks w)))\<rparr>)) \<and>
            (\<forall>deadline. currentStatus doc = Some ''indexing_wait'' \<and>
                indexingDelayUntil doc = Some deadline \<longrightarrow>
               (clock (ticks w) < deadline \<longrightarrow>
                  table (check_document clock get_ingestion_job doc w) = table w) \<and>
               (clock (ticks w) \<ge> deadline \<longrightarrow>
                  get_item (check_document clock get_ingestion_job doc w) (userId doc) (documentId doc) =
                    Some (doc\<lparr>currentStatus := Some ''ingestion_complete'',
                              updatedAt := Some (clock (Suc (ticks w))),
                              indexingDelayUntil := None\<rparr>)))) \<and>
         (job_status job = Some ''STARTING'' \<or> job_status job = Some ''IN_PROGRESS'' \<longrightarrow>
            check_document clock get_ingestion_job doc w = w)"
  using job_id job stored
  by (auto simp: check_document_def utcnow_def Let_def get_item_update_item settle_delay_def)

theorem poller_complete_settle_witness:
  "get_item (check_document demo_clock (demo_job ''COMPLETE'' None)
               (demo_item ''ingestion_in_progress'')
               (demo_world [demo_item ''ingestion_in_progress''])) ''u1'' ''d1'' =
     Some ((demo_item ''ingestion_in_progress'')
             \<lparr>currentStatus := Some ''indexing_wait'',
              indexingDelayUntil := Some 15001000,
              updatedAt := Some 1001\<rparr>)"
  using poller_complete_settle [of "demo_item ''ingestion_in_progress''"
      "demo_job ''COMPLETE'' None" "\<lparr>job_status = Some ''COMPLETE'', failureReasons = None\<rparr>"
      "demo_world [demo_item ''ingestion_in_progress'']" demo_clock]
  by (simp add: demo_item_def demo_job_def demo_world_def demo_clock_def present_def
      get_item_def empty_item_def)

text \<open>
  Claim C5. For a polled record whose job reports \<open>FAILED\<close>, the poller stores the
  status \<open>error\<close> and, as \<open>errorMessage\<close>, the job's failure reasons joined by a comma
  and a space; the single reason \<open>quota exceeded\<close> is stored as it is.
\<close>

theorem poller_failed:
  assumes job_id: "present (ingestionJobId doc)"
    and job: "get_ingestion_job (the (ingestionJobId doc)) = Inr job"
    and failed: "job_status job = Some ''FAILED''"
  shows "\<exists>it. get_item (check_document clock get_ingestion_job doc w) (userId doc) (documentId doc) = Some it \<and>
           currentStatus it = Some ''error'' \<and>
           errorMessage it =
             Some (join '', '' (case failureReasons job of None \<Rightarrow> [''Unknown error''] | Some rs \<Rightarrow> rs)) \<and>
           (failureReasons job = Some [''quota exceeded''] \<longrightarrow> errorMessage it = Some ''quota exceeded'')"
  using job_id job failed
  by (auto simp: check_document_def utcnow_def Let_def get_item_update_item)


theorem poller_failed_witness:
  "\<exists>it. get_item (check_document demo_clock (demo_job ''FAILED'' (Some [''quota exceeded'']))
               (demo_item ''ingestion_in_progress'')
               (demo_world [demo_item ''ingestion_in_progress''])) ''u1'' ''d1'' = Some it \<and>
        currentStatus it = Some ''error'' \<and> errorMessage it = Some ''quota exceeded''"
  using poller_failed [of "demo_item ''ingestion_in_progress''"
      "demo_job ''FAILED'' (Some [''quota exceeded''])"
      "\<lparr>job_status = Some ''FAILED'', failureReasons = Some [''quota exceeded'']\<rparr>"
      demo_clock "demo_world [demo_item ''ingestion_in_progress'']"]
  by (simp add: demo_item_def demo_job_def present_def empty_item_def)

lemma status_info_fallback:
  "cs \<notin> {''upload_initiated'', ''upload_complete'', ''ingestion_started'',
           ''ingestion_in_progress'', ''ingestion_complete'', ''error''} \<Longrightarrow>
   status_info cs = (''unknown'', ''Processing...'', 50)"
  by (simp add: status_info_def status_map_def)

lemma reader_ok:
  assumes "get_user_id_from_event event = Inr uid"
    and "map_of (path_parameters event) ''documentId'' = Some did" and "did \<noteq> []"
    and "get_item w uid did = Some it"
  shows "statusCode (fst (document_status_handler clock event w)) = 200 \<and>
         reported (fst (document_status_handler clock event w)) =
           (case status_info (case currentStatus it of None \<Rightarrow> ''unknown'' | Some c \<Rightarrow> c) of
              (st, message, progress) \<Rightarrow>
                (Some (JStr st), Some (JStr message), Some (JInt (int progress)))) \<and>
         table (snd (document_status_handler clock event w)) = table w"
  using assms
  by (simp add: document_status_handler_def present_def Let_def utcnow_def split_def
      reported_def body_field_def)

lemma ai_status_not_in_table:
  "''ai_analysis_'' @ x \<notin> {''upload_initiated'', ''upload_complete'', ''ingestion_started'',
                  ''ingestion_in_progress'', ''ingestion_complete'', ''error''}"
  by simp

text \<open>
  Claim C9. For an existing DocumentRecord the Status Reader answers 200 and maps
  \<open>currentStatus\<close> through the fixed table of six entries; every value outside the table,
  the \<open>ai_analysis_*\<close> values among them, gets the fallback: status \<open>unknown\<close>, message
  \<open>Processing...\<close>, progress 50.
\<close>

theorem status_reader_mapping:
  assumes auth: "get_user_id_from_event event = Inr uid"
    and doc_id: "map_of (path_parameters event) ''documentId'' = Some did" "did \<noteq> []"
    and stored: "get_item w uid did = Some it"
    and cur: "currentStatus it = Some cs"
  shows "statusCode (fst (document_status_handler clock event w)) = 200 \<and>
         (cs = ''upload_initiated'' \<longrightarrow> reported (fst (document_status_handler clock event w)) =
            (Some (JStr ''uploading''), Some (JStr ''Uploading document...''), Some (JInt 10))) \<and>
         (cs = ''upload_complete'' \<longrightarrow> reported (fst (document_status_handler clock event w)) =
            (Some (JStr ''processing''), Some (JStr ''Processing document...''), Some (JInt 30))) \<and>
         (cs = ''ingestion_started'' \<longrightarrow> reported (fst (document_status_handler clock event w)) =
            (Some (JStr ''ingesting''), Some (JStr ''Adding to knowledge base...''), Some (JInt 50))) \<and>
         (cs = ''ingestion_in_progress'' \<longrightarrow> reported (fst (document_status_handler clock event w)) =
            (Some (JStr ''ingesting''), Some (JStr ''Adding to knowledge base...''), Some (JInt 70))) \<and>
         (cs = ''ingestion_complete'' \<longrightarrow> reported (fst (document_status_handler clock event w)) =
            (Some (JStr ''ready''),
             Some (JStr ''Document ready! You can now chat about this document.''),
             Some (JInt 100))) \<and>
         (cs = ''error'' \<longrightarrow> reported (fst (document_status_handler clock event w)) =
            (Some (JStr ''error''), Some (JStr ''Error processing document''), Some (JInt 0))) \<and>
         (cs \<notin> {''upload_initiated'', ''upload_complete'', ''ingestion_started'',
                  ''ingestion_in_progress'', ''ingestion_complete'', ''error''} \<longrightarrow>
            reported (fst (document_status_handler clock event w)) =
              (Some (JStr ''unknown''), Some (JStr ''Processing...''), Some (JInt 50))) \<and>
         (\<forall>x. cs = ''ai_analysis_'' @ x \<longrightarrow>
            reported (fst (document_status_handler clock event w)) =
              (Some (JStr ''unknown''), Some (JStr ''Processing...''), Some (JInt 50)))"
proof -
  let ?r = "fst (document_status_handler clock event w)"
  have ok: "statusCode ?r = 200"
    using reader_ok [OF auth doc_id stored, of clock] by simp
  have r: "reported ?r =
           (case status_info cs of (st, message, progress) \<Rightarrow>
                (Some (JStr st), Some (JStr message), Some (JInt (int progress))))"
    using reader_ok [OF auth doc_id stored, of clock] cur by simp
  have known: "status_info ''upload_initiated'' = (''uploading'', ''Uploading document...'', 10)"
    "status_info ''upload_complete'' = (''processing'', ''Processing document...'', 30)"
    "status_info ''ingestion_started'' = (''ingesting'', ''Adding to knowledge base...'', 50)"
    "status_info ''ingestion_in_progress'' = (''ingesting'', ''Adding to knowledge base...'', 70)"
    "status_info ''ingestion_complete'' =
       (''ready'', ''Document ready! You can now chat about this document.'', 100)"
    "status_info ''error'' = (''error'', ''Error processing document'', 0)"
    by (simp_all add: status_info_def status_map_def)
  have fallback: "cs \<notin> {''upload_initiated'', ''upload_complete'', ''ingestion_started'',
                  ''ingestion_in_progress'', ''ingestion_complete'', ''error''} \<Longrightarrow>
      reported ?r = (Some (JStr ''unknown''), Some (JStr ''Processing...''), Some (JInt 50))"
  proof -
    assume "cs \<notin> {''upload_initiated'', ''upload_complete'', ''ingestion_started'',
                  ''ingestion_in_progress'', ''ingestion_complete'', ''error''}"
    then have "status_info cs = (''unknown'', ''Processing...'', 50)"
      by (rule status_info_fallback)
    with r show ?thesis by simp
  qed
  have ai: "\<forall>x. cs = ''ai_analysis_'' @ x \<longrightarrow>
      reported ?r = (Some (JStr ''unknown''), Some (JStr ''Processing...''), Some (JInt 50))"
    using fallback ai_status_not_in_table by blast
  show ?thesis
    using ok fallback ai by (simp add: r known)
qed


theorem status_reader_mapping_witness:
  "reported (fst (document_status_handler demo_clock demo_status_event
                    (demo_world [demo_item ''ai_analysis_complete'']))) =
     (Some (JStr ''unknown''), Some (JStr ''Processing...''), Some (JInt 50))"
  using status_reader_mapping [of demo_status_event "''u1''" "''d1''"
      "demo_world [demo_item ''ai_analysis_complete'']" "demo_item ''ai_analysis_complete''"
      "''ai_analysis_complete''" demo_clock]
  by (simp add: demo_status_event_def get_user_id_from_event_def present_def demo_world_def
      demo_item_def get_item_def empty_item_def)

subsection \<open>Sidecar Store: appending to the status chain\<close>

lemma get_sidecar_key_processing [simp]:
  "get_sidecar_key k ''processing'' = Inr (k @ ''.processing.json'')"
  by (simp add: get_sidecar_key_def SIDECAR_TYPES_def)

lemma get_sidecar_key_audit [simp]:
  "get_sidecar_key k ''audit'' = Inr (k @ ''.audit.json'')"
  by (simp add: get_sidecar_key_def SIDECAR_TYPES_def)

lemma subscript_JObj: "subscript d k = Inr v \<Longrightarrow> \<exists>kvs. d = JObj kvs \<and> map_of kvs k = Some v"
  by (auto simp: subscript_def split: json.splits option.splits)

lemma has_list_JObj:
  assumes "has_list d k"
  shows "\<exists>kvs xs. d = JObj kvs \<and> map_of kvs k = Some (JArr xs)"
proof (cases "subscript d k")
  case (Inl e)
  with assms show ?thesis by (simp add: has_list_def)
next
  case (Inr v)
  with assms obtain xs where "v = JArr xs"
    by (cases v) (simp_all add: has_list_def)
  with Inr subscript_JObj [of d k v] show ?thesis by blast
qed

lemma write_sidecar_processing:
  "write_sidecar clock bucket k ''processing'' d w =
     (Inr (k @ ''.processing.json''),
      w\<lparr>ticks := Suc (ticks w),
        objects := (objects w)((bucket, k @ ''.processing.json'') \<mapsto>
                  \<lparr>body = Json d, content_type = Some ''application/json'',
                   metadata = [(''sidecar-type'', JStr ''processing''),
                               (''parent-document'', JStr k),
                               (''created-at'', JTime (clock (ticks w)))]\<rparr>)\<rparr>)"
  by (simp add: write_sidecar_def utcnow_def)

lemma write_sidecar_audit:
  "write_sidecar clock bucket k ''audit'' d w =
     (Inr (k @ ''.audit.json''),
      w\<lparr>ticks := Suc (ticks w),
        objects := (objects w)((bucket, k @ ''.audit.json'') \<mapsto>
                  \<lparr>body = Json d, content_type = Some ''application/json'',
                   metadata = [(''sidecar-type'', JStr ''audit''),
                               (''parent-document'', JStr k),
                               (''created-at'', JTime (clock (ticks w)))]\<rparr>)\<rparr>)"
  by (simp add: write_sidecar_def utcnow_def)

lemma write_processing:
  "\<exists>w'. write_sidecar clock bucket k ''processing'' d w = (Inr (k @ ''.processing.json''), w') \<and>
        read_sidecar bucket k ''processing'' w' = Inr (Some d)"
  by (simp add: write_sidecar_processing read_sidecar_def)

text \<open>The append on a stored value that lets it run.\<close>

lemma append_processing_status_runs:
  assumes prior: "read_sidecar bucket key ''processing'' w = Inr r"
    and chain: "subscript (or_default r processing_default) ''statusChain'' = Inr (JArr old)"
    and errs: "nonempty_dict error_info \<longrightarrow>
                 (\<exists>es. subscript (or_default r processing_default) ''errors'' = Inr (JArr es))"
  shows "\<exists>w'. append_processing_status clock bucket key status details error_info w = (Inr (), w') \<and>
           status_chain bucket key w' =
             Some (old @ [JObj [(''status'', JStr status),
                                (''timestamp'', JTime (clock (ticks w))),
                                (''details'', JStr details)]]) \<and>
           sidecar_current_status bucket key w' = Some (JStr status)"
proof -
  from subscript_JObj [OF chain] obtain kvs where
    d: "or_default r processing_default = JObj kvs" and c: "map_of kvs ''statusChain'' = Some (JArr old)"
    by blast
  let ?e = "JObj [(''status'', JStr status), (''timestamp'', JTime (clock (ticks w))),
                  (''details'', JStr details)]"
  let ?kvs2 = "AList.update ''currentStatus'' (JStr status)
                 (AList.update ''statusChain'' (JArr (old @ [?e])) kvs)"
  have l1: "map_of ?kvs2 ''statusChain'' = Some (JArr (old @ [?e]))"
    by (simp add: update_conv')
  have l2: "map_of ?kvs2 ''currentStatus'' = Some (JStr status)"
    by (simp add: update_conv')
  show ?thesis
  proof (cases "nonempty_dict error_info")
    case False
    obtain w' where w': "write_sidecar clock bucket key ''processing'' (JObj ?kvs2)
                           (snd (utcnow clock w)) = (Inr (key @ ''.processing.json''), w')"
      and rd: "read_sidecar bucket key ''processing'' w' = Inr (Some (JObj ?kvs2))"
      using write_processing by blast
    have "append_processing_status clock bucket key status details error_info w = (Inr (), w')"
      using prior chain d c False w'
      by (simp add: append_processing_status_def as_list_def set_key_def Let_def split_def
          utcnow_def)
    moreover have "status_chain bucket key w' = Some (old @ [?e])"
      by (simp add: status_chain_def rd subscript_def l1)
    moreover have "sidecar_current_status bucket key w' = Some (JStr status)"
      by (simp add: sidecar_current_status_def rd subscript_def l2)
    ultimately show ?thesis by blast
  next
    case True
    with errs obtain es where es: "subscript (or_default r processing_default) ''errors'' = Inr (JArr es)"
      by blast
    then have e0: "map_of kvs ''errors'' = Some (JArr es)"
      by (simp add: d subscript_def split: option.splits)
    let ?err = "JObj (dict_merge [(''timestamp'', JTime (clock (Suc (ticks w))))] (the error_info))"
    let ?kvs3 = "AList.update ''errors'' (JArr (es @ [?err])) ?kvs2"
    have m1: "map_of ?kvs3 ''statusChain'' = Some (JArr (old @ [?e]))"
      by (simp add: update_conv')
    have m2: "map_of ?kvs3 ''currentStatus'' = Some (JStr status)"
      by (simp add: update_conv')
    have m0: "map_of ?kvs2 ''errors'' = Some (JArr es)"
      using e0 by (simp add: update_conv')
    obtain w' where w': "write_sidecar clock bucket key ''processing'' (JObj ?kvs3)
                           (snd (utcnow clock (snd (utcnow clock w)))) = (Inr (key @ ''.processing.json''), w')"
      and rd: "read_sidecar bucket key ''processing'' w' = Inr (Some (JObj ?kvs3))"
      using write_processing by blast
    have "append_processing_status clock bucket key status details error_info w = (Inr (), w')"
      using prior chain d c True w' m0
      by (simp add: append_processing_status_def as_list_def set_key_def Let_def split_def
          utcnow_def subscript_def)
    moreover have "status_chain bucket key w' = Some (old @ [?e])"
      by (simp add: status_chain_def rd subscript_def m1)
    moreover have "sidecar_current_status bucket key w' = Some (JStr status)"
      by (simp add: sidecar_current_status_def rd subscript_def m2)
    ultimately show ?thesis by blast
  qed
qed

text \<open>When \<open>append_processing_status\<close> raises, it has written nothing.\<close>

lemma append_processing_status_raise_keeps_objects:
  "append_processing_status clock bucket key status details error_info w = (Inl e, w') \<Longrightarrow>
   objects w' = objects w"
  by (auto simp: append_processing_status_def write_sidecar_processing utcnow_def Let_def
      split: sum.splits if_splits)

text \<open>On every other stored value it raises.\<close>

lemma append_processing_status_refuses:
  assumes "\<not> appendable bucket key error_info w"
  shows "\<exists>e. fst (append_processing_status clock bucket key status details error_info w) = Inl e"
proof (cases "read_sidecar bucket key ''processing'' w")
  case (Inl e)
  then show ?thesis by (simp add: append_processing_status_def)
next
  case (Inr r)
  let ?d = "or_default r processing_default"
  show ?thesis
  proof (cases "has_list ?d ''statusChain''")
    case False
    then show ?thesis
      using Inr
      by (auto simp: append_processing_status_def has_list_def as_list_def Let_def
          split: sum.splits json.splits)
  next
    case True
    with assms Inr have ne: "nonempty_dict error_info" and nl: "\<not> has_list ?d ''errors''"
      by (simp_all add: appendable_def)
    from has_list_JObj [OF True] obtain kvs xs where
      d: "?d = JObj kvs" and c: "map_of kvs ''statusChain'' = Some (JArr xs)"
      by blast
    from nl d have e: "\<forall>es. map_of kvs ''errors'' \<noteq> Some (JArr es)"
      by (auto simp: has_list_def subscript_def split: option.splits)
    show ?thesis
      using Inr d c ne e
      by (auto simp: append_processing_status_def subscript_def as_list_def set_key_def Let_def
          utcnow_def update_conv' split: option.splits json.splits)
  qed
qed

lemma previous_chain_appendable:
  assumes "appendable bucket key error_info w"
  obtains r where "read_sidecar bucket key ''processing'' w = Inr r"
    and "subscript (or_default r processing_default) ''statusChain'' =
           Inr (JArr (previous_chain bucket key w))"
    and "nonempty_dict error_info \<longrightarrow>
           (\<exists>es. subscript (or_default r processing_default) ''errors'' = Inr (JArr es))"
proof -
  from assms obtain r where r: "read_sidecar bucket key ''processing'' w = Inr r"
    by (cases "read_sidecar bucket key ''processing'' w") (simp_all add: appendable_def)
  with assms have h: "has_list (or_default r processing_default) ''statusChain''"
    and he: "nonempty_dict error_info \<longrightarrow> has_list (or_default r processing_default) ''errors''"
    by (simp_all add: appendable_def)
  from has_list_JObj [OF h] obtain kvs xs where
    d: "or_default r processing_default = JObj kvs" and c: "map_of kvs ''statusChain'' = Some (JArr xs)"
    by blast
  have 1: "subscript (or_default r processing_default) ''statusChain'' =
           Inr (JArr (previous_chain bucket key w))"
    by (simp add: previous_chain_def r d c subscript_def)
  have 2: "nonempty_dict error_info \<longrightarrow>
           (\<exists>es. subscript (or_default r processing_default) ''errors'' = Inr (JArr es))"
  proof
    assume "nonempty_dict error_info"
    with he have "has_list (or_default r processing_default) ''errors''" by simp
    from has_list_JObj [OF this] obtain kvs' es where
      "or_default r processing_default = JObj kvs'" "map_of kvs' ''errors'' = Some (JArr es)"
      by blast
    then have "subscript (or_default r processing_default) ''errors'' = Inr (JArr es)"
      by (simp add: subscript_def)
    then show "\<exists>es. subscript (or_default r processing_default) ''errors'' = Inr (JArr es)" ..
  qed
  from r 1 2 show ?thesis by (rule that)
qed

text \<open>
  Claim C1, as stated, fails: the stored processing sidecar
  \<open>{"currentStatus": "upload_initiated"}\<close> has no \<open>statusChain\<close>; on it
  \<open>append_processing_status\<close> raises \<open>KeyError\<close> and appends nothing, the world stays as it
  was.
\<close>

theorem append_to_incomplete_sidecar_raises:
  "append_processing_status demo_clock ''docs'' ''users/u1/other/d1-a.txt''
     ''ingestion_started'' ''Starting Knowledge Base ingestion'' None demo_incomplete_world =
   (Inl (KeyError ''statusChain''), demo_incomplete_world)"
  by (simp add: append_processing_status_def read_sidecar_def demo_incomplete_world_def
      demo_world_def or_default_def subscript_def)

text \<open>
  Claim C1, amended. Whatever the document key, status, details and error information:
  when the stored processing sidecar is missing, empty, or an object whose
  \<open>statusChain\<close> is a list (and whose \<open>errors\<close> is a list when error information is given),
  \<open>append_processing_status\<close> returns and leaves a processing sidecar whose chain is the
  previous chain followed by exactly one new entry, made of the status, the time of the
  call and the details, and whose \<open>currentStatus\<close> is the status of that entry. On every
  other stored value it raises and writes nothing.
\<close>

theorem append_processing_status_appends:
  "(appendable bucket key error_info w \<longrightarrow>
      (\<exists>w'. append_processing_status clock bucket key status details error_info w = (Inr (), w') \<and>
            status_chain bucket key w' =
              Some (previous_chain bucket key w @
                      [JObj [(''status'', JStr status),
                             (''timestamp'', JTime (clock (ticks w))),
                             (''details'', JStr details)]]) \<and>
            sidecar_current_status bucket key w' = Some (JStr status))) \<and>
   (\<not> appendable bucket key error_info w \<longrightarrow>
      (\<exists>e w'. append_processing_status clock bucket key status details error_info w = (Inl e, w') \<and>
              objects w' = objects w))"
proof (intro conjI impI)
  assume "appendable bucket key error_info w"
  then obtain r where "read_sidecar bucket key ''processing'' w = Inr r"
    and "subscript (or_default r processing_default) ''statusChain'' =
           Inr (JArr (previous_chain bucket key w))"
    and "nonempty_dict error_info \<longrightarrow>
           (\<exists>es. subscript (or_default r processing_default) ''errors'' = Inr (JArr es))"
    by (rule previous_chain_appendable)
  then show "\<exists>w'. append_processing_status clock bucket key status details error_info w = (Inr (), w') \<and>
            status_chain bucket key w' =
              Some (previous_chain bucket key w @
                      [JObj [(''status'', JStr status),
                             (''timestamp'', JTime (clock (ticks w))),
                             (''details'', JStr details)]]) \<and>
            sidecar_current_status bucket key w' = Some (JStr status)"
    by (rule append_processing_status_runs)
next
  assume "\<not> appendable bucket key error_info w"
  then obtain e where
    e: "fst (append_processing_status clock bucket key status details error_info w) = Inl e"
    using append_processing_status_refuses by blast
  obtain w' where
    w': "append_processing_status clock bucket key status details error_info w = (Inl e, w')"
    using e by (cases "append_processing_status clock bucket key status details error_info w") simp
  from append_processing_status_raise_keeps_objects [OF w'] w'
  show "\<exists>e w'. append_processing_status clock bucket key status details error_info w = (Inl e, w') \<and>
              objects w' = objects w"
    by blast
qed

theorem append_processing_status_appends_witness:
  "\<exists>w'. append_processing_status demo_clock ''docs'' ''users/u1/other/d1-a.txt''
           ''ingestion_started'' ''Starting Knowledge Base ingestion''
           (Some [(''error'', JStr ''boom'')]) demo_sidecar_world = (Inr (), w') \<and>
        status_chain ''docs'' ''users/u1/other/d1-a.txt'' w' =
          Some [JObj [(''status'', JStr ''upload_initiated''), (''timestamp'', JTime 900),
                      (''details'', JStr ''Presigned URL generated, awaiting upload'')],
                JObj [(''status'', JStr ''ingestion_started''), (''timestamp'', JTime 1000),
                      (''details'', JStr ''Starting Knowledge Base ingestion'')]] \<and>
        sidecar_current_status ''docs'' ''users/u1/other/d1-a.txt'' w' =
          Some (JStr ''ingestion_started'')"
proof -
  have a: "appendable ''docs'' ''users/u1/other/d1-a.txt'' (Some [(''error'', JStr ''boom'')])
             demo_sidecar_world"
    by (simp add: appendable_def has_list_def read_sidecar_def demo_sidecar_world_def
        demo_world_def demo_processing_def or_default_def subscript_def nonempty_dict_def)
  have p: "previous_chain ''docs'' ''users/u1/other/d1-a.txt'' demo_sidecar_world =
             [JObj [(''status'', JStr ''upload_initiated''), (''timestamp'', JTime 900),
                    (''details'', JStr ''Presigned URL generated, awaiting upload'')]]"
    by (simp add: previous_chain_def read_sidecar_def demo_sidecar_world_def
        demo_world_def demo_processing_def or_default_def subscript_def)
  have t: "demo_clock (ticks demo_sidecar_world) = 1000"
    by (simp add: demo_clock_def demo_sidecar_world_def demo_world_def)
  from append_processing_status_appends [THEN conjunct1, THEN mp, OF a,
      of demo_clock "''ingestion_started''" "''Starting Knowledge Base ingestion''"]
  show ?thesis by (simp add: p t)
qed

subsection \<open>Ingestion Trigger\<close>

lemma process_s3_record_skip_event:
  "\<not> startswith (eventName record) ''ObjectCreated'' \<Longrightarrow>
   process_s3_record env record request_id w = (Inr None, w)"
  by (simp add: process_s3_record_def)

lemma process_s3_record_skip_sidecar:
  "is_sidecar_file (object_key record) \<Longrightarrow>
   process_s3_record env record request_id w = (Inr None, w)"
  by (simp add: process_s3_record_def)

text \<open>
  Claim C7. A notification whose object key ends in one of the five sidecar suffixes is a
  no-op: \<open>process_s3_record\<close> returns no job and leaves the whole world as it was (no
  ingestion job started, no sidecar or DocumentRecord written, no Extraction Worker
  invoked), and the handler answers success for a batch of that entry alone.
\<close>

theorem sidecar_notification_is_noop:
  assumes "\<exists>suffix \<in> {''.metadata.json'', ''.extracted.json'', ''.processing.json'',
                  ''.insights.json'', ''.audit.json''}. \<exists>p. object_key record = p @ suffix"
  shows "process_s3_record env record request_id w = (Inr None, w) \<and>
         ingest_lambda_handler env [record] request_id w =
           (JObj [(''status'', JStr ''success''),
                  (''message'', JStr ''Ingestion processing complete'')], w)"
proof -
  from assms have "is_sidecar_file (object_key record)"
    by (simp only: is_sidecar_file_iff)
  then have p: "process_s3_record env record request_id w = (Inr None, w)"
    by (rule process_s3_record_skip_sidecar)
  then show ?thesis
    by (simp add: ingest_lambda_handler_def)
qed


theorem sidecar_notification_is_noop_witness:
  "process_s3_record demo_ingest_env
     (demo_record ''users/u1/other/d1-a.txt.processing.json'') ''req-1'' demo_batch_world =
   (Inr None, demo_batch_world)"
proof -
  have "is_sidecar_file (object_key (demo_record ''users/u1/other/d1-a.txt.processing.json''))"
    by (simp add: demo_record_def is_sidecar_file_def SIDECAR_TYPES_def endswith_def)
  then have "\<exists>suffix \<in> {''.metadata.json'', ''.extracted.json'', ''.processing.json'',
                  ''.insights.json'', ''.audit.json''}.
      \<exists>p. object_key (demo_record ''users/u1/other/d1-a.txt.processing.json'') = p @ suffix"
    by (rule is_sidecar_file_iff [THEN iffD1])
  from sidecar_notification_is_noop [OF this] show ?thesis by (rule conjunct1)
qed


lemma process_s3_record_document:
  assumes "startswith (eventName record) ''ObjectCreated''"
    and "\<not> is_sidecar_file (object_key record)"
  shows "process_s3_record env record request_id w =
     (case start_ingestion_job env
             (length (ingestion_calls
                (prepare_ingestion env (bucket_name record) (object_key record) w)))
             request_id of
        Inl e \<Rightarrow>
          (Inl e,
           (prepare_ingestion env (bucket_name record) (object_key record) w)
             \<lparr>ingestion_calls :=
                ingestion_calls (prepare_ingestion env (bucket_name record) (object_key record) w)
                  @ [request_id]\<rparr>)
      | Inr job \<Rightarrow>
          (Inr (Some job),
           finish_ingestion env (bucket_name record) (object_key record) job
             ((prepare_ingestion env (bucket_name record) (object_key record) w)
               \<lparr>ingestion_calls :=
                  ingestion_calls (prepare_ingestion env (bucket_name record) (object_key record) w)
                    @ [request_id]\<rparr>)))"
  using assms by (simp add: process_s3_record_def Let_def)

lemma process_s3_record_raise:
  assumes "process_s3_record env record rid w = (Inl e, w1)"
  shows "\<exists>n. start_ingestion_job env n rid = Inl e"
proof (cases "startswith (eventName record) ''ObjectCreated'' \<and> \<not> is_sidecar_file (object_key record)")
  case False
  then have "process_s3_record env record rid w = (Inr None, w)"
    using process_s3_record_skip_event process_s3_record_skip_sidecar by blast
  with assms show ?thesis by simp
next
  case True
  then have c: "startswith (eventName record) ''ObjectCreated''"
    and d: "\<not> is_sidecar_file (object_key record)" by simp_all
  define n where "n = length (ingestion_calls
      (prepare_ingestion env (bucket_name record) (object_key record) w))"
  show ?thesis
  proof (cases "start_ingestion_job env n rid")
    case (Inl e')
    with assms have "e' = e"
      by (simp add: process_s3_record_document [OF c d] n_def)
    with Inl show ?thesis by blast
  next
    case (Inr job)
    with assms have False
      by (simp add: process_s3_record_document [OF c d] n_def)
    then show ?thesis ..
  qed
qed

lemma process_records_world:
  "snd (process_records env rid rs jobs w) = snd (process_records env rid rs jobs' w)"
proof (induction rs arbitrary: jobs jobs' w)
  case Nil
  show ?case by simp
next
  case (Cons r rs)
  obtain res w1 where p: "process_s3_record env r rid w = (res, w1)"
    by (cases "process_s3_record env r rid w")
  show ?case
  proof (cases res)
    case (Inl e)
    with p show ?thesis by simp
  next
    case (Inr jd)
    show ?thesis
    proof (cases jd)
      case None
      with p Inr show ?thesis by (simp add: Cons.IH [of jobs w1 jobs'])
    next
      case (Some job)
      with p Inr show ?thesis by (simp add: Cons.IH [of "jobs @ [job]" w1 "jobs' @ [job]"])
    qed
  qed
qed

lemma handler_world:
  "snd (ingest_lambda_handler env rs rid w) = snd (process_records env rid rs [] w)"
proof -
  obtain res w1 where p: "process_records env rid rs [] w = (res, w1)"
    by (cases "process_records env rid rs [] w")
  show ?thesis
    by (cases res) (simp_all add: ingest_lambda_handler_def p Let_def)
qed

lemma calls_append_processing_status:
  "ingestion_calls (snd (append_processing_status clock bucket k st details ei w)) =
     ingestion_calls w"
  by (simp add: append_processing_status_def write_sidecar_processing utcnow_def Let_def
      split: sum.splits)

lemma calls_append_audit_event:
  "ingestion_calls (snd (append_audit_event clock bucket k action uid kw w)) = ingestion_calls w"
  by (simp add: append_audit_event_def write_sidecar_audit utcnow_def Let_def
      split: sum.splits)

lemma calls_update_sidecar_status:
  "ingestion_calls (update_sidecar_status env k st details uid w) = ingestion_calls w"
proof -
  obtain r w1 where a: "append_processing_status (ingest_clock env) (BUCKET_NAME env) k st details None w = (r, w1)"
    by (cases "append_processing_status (ingest_clock env) (BUCKET_NAME env) k st details None w")
  have "ingestion_calls w1 = ingestion_calls w"
    using calls_append_processing_status [of "ingest_clock env" "BUCKET_NAME env" k st details None w]
    by (simp add: a)
  then show ?thesis
    by (cases r) (simp_all add: update_sidecar_status_def a calls_append_audit_event)
qed

lemma calls_update_document_status:
  "ingestion_calls (update_document_status env uid k st job w) = ingestion_calls w"
  by (simp add: update_document_status_def update_item_def utcnow_def Let_def
      split: option.splits)

lemma calls_add_user_id_metadata:
  "ingestion_calls (snd (add_user_id_metadata_to_s3 env bucket k uid w)) = ingestion_calls w"
  by (simp add: add_user_id_metadata_to_s3_def utcnow_def Let_def split: option.splits)

lemma calls_prepare_ingestion:
  "ingestion_calls (prepare_ingestion env bucket k w) = ingestion_calls w"
  by (simp add: prepare_ingestion_def Let_def calls_update_sidecar_status
      calls_update_document_status calls_add_user_id_metadata)

lemma calls_finish_ingestion:
  "ingestion_calls (finish_ingestion env bucket k job w) = ingestion_calls w"
  by (simp add: finish_ingestion_def Let_def invoke_document_analysis_def
      calls_update_sidecar_status calls_update_document_status split: option.splits)

lemma process_s3_record_calls:
  assumes "startswith (eventName record) ''ObjectCreated''"
    and "\<not> is_sidecar_file (object_key record)"
  shows "ingestion_calls (snd (process_s3_record env record rid w)) = ingestion_calls w @ [rid]"
    and "fst (process_s3_record env record rid w) =
           (case start_ingestion_job env (length (ingestion_calls w)) rid of
              Inl e \<Rightarrow> Inl e | Inr job \<Rightarrow> Inr (Some job))"
  by (simp_all add: process_s3_record_document [OF assms] calls_prepare_ingestion
      calls_finish_ingestion split: sum.splits)

lemma demo_created: "startswith (eventName (demo_record k)) ''ObjectCreated''"
  by (simp add: demo_record_def startswith_def)

lemma demo_d1_document: "\<not> is_sidecar_file (object_key (demo_record ''users/u1/other/d1-a.txt''))"
  by (simp add: demo_record_def is_sidecar_file_def SIDECAR_TYPES_def endswith_def)

lemma demo_d2_document: "\<not> is_sidecar_file (object_key (demo_record ''users/u1/other/d2-b.txt''))"
  by (simp add: demo_record_def is_sidecar_file_def SIDECAR_TYPES_def endswith_def)


lemma handler_first_fails:
  assumes "fst (process_s3_record env r rid w) = Inl e"
  shows "ingest_lambda_handler env (r # rest) rid w =
           (JObj [(''error'', JStr (error_text e))], snd (process_s3_record env r rid w))"
proof -
  obtain res w1 where p: "process_s3_record env r rid w = (res, w1)"
    by (cases "process_s3_record env r rid w")
  with assms have "res = Inl e" by simp
  with p show ?thesis by (simp add: ingest_lambda_handler_def)
qed

lemma demo_first_record:
  "fst (process_s3_record demo_ingest_env (demo_record ''users/u1/other/d1-a.txt'') ''req-1''
          demo_batch_world) = Inl (ServiceError ''Service unavailable'')"
  by (simp add: process_s3_record_calls(2) [OF demo_created demo_d1_document]
      demo_batch_world_def demo_world_def demo_ingest_env_def)

lemma demo_first_record_calls:
  "ingestion_calls (snd (process_s3_record demo_ingest_env
       (demo_record ''users/u1/other/d1-a.txt'') ''req-1'' demo_batch_world)) = [''req-1'']"
  by (simp add: process_s3_record_calls(1) [OF demo_created demo_d1_document]
      demo_batch_world_def demo_world_def)

text \<open>
  Claim C3, as stated, fails: in a batch of two documents whose first start-ingestion
  call throws, the handler answers with the error payload and has started one ingestion
  job only, the failed one; the second record was not processed, although processing it
  afterwards on its own starts its job.
\<close>

theorem batch_sibling_not_processed:
  "fst (ingest_lambda_handler demo_ingest_env
          [demo_record ''users/u1/other/d1-a.txt'', demo_record ''users/u1/other/d2-b.txt'']
          ''req-1'' demo_batch_world) = JObj [(''error'', JStr ''Service unavailable'')] \<and>
   ingestion_calls (snd (ingest_lambda_handler demo_ingest_env
          [demo_record ''users/u1/other/d1-a.txt'', demo_record ''users/u1/other/d2-b.txt'']
          ''req-1'' demo_batch_world)) = [''req-1''] \<and>
   ingestion_calls (snd (ingest_lambda_handler demo_ingest_env
          [demo_record ''users/u1/other/d2-b.txt''] ''req-1''
          (snd (ingest_lambda_handler demo_ingest_env
                  [demo_record ''users/u1/other/d1-a.txt'',
                   demo_record ''users/u1/other/d2-b.txt'']
                  ''req-1'' demo_batch_world)))) = [''req-1'', ''req-1'']"
proof -
  define w1 where "w1 = snd (process_s3_record demo_ingest_env
                    (demo_record ''users/u1/other/d1-a.txt'') ''req-1'' demo_batch_world)"
  have c1: "ingestion_calls w1 = [''req-1'']"
    unfolding w1_def by (rule demo_first_record_calls)
  have h: "ingest_lambda_handler demo_ingest_env
          [demo_record ''users/u1/other/d1-a.txt'', demo_record ''users/u1/other/d2-b.txt'']
          ''req-1'' demo_batch_world = (JObj [(''error'', JStr ''Service unavailable'')], w1)"
    unfolding w1_def
    using handler_first_fails [OF demo_first_record]
    by (simp add: error_text_def)
  have "ingestion_calls (snd (process_records demo_ingest_env ''req-1''
          [demo_record ''users/u1/other/d2-b.txt''] [] w1)) =
        ingestion_calls (snd (process_s3_record demo_ingest_env
          (demo_record ''users/u1/other/d2-b.txt'') ''req-1'' w1))"
    by (simp split: prod.splits sum.splits option.splits)
  also have "\<dots> = ingestion_calls w1 @ [''req-1'']"
    by (rule process_s3_record_calls(1) [OF demo_created demo_d2_document])
  finally have c2: "ingestion_calls (snd (ingest_lambda_handler demo_ingest_env
          [demo_record ''users/u1/other/d2-b.txt''] ''req-1'' w1)) = [''req-1'', ''req-1'']"
    by (simp add: handler_world c1)
  show ?thesis
    by (simp add: h c1 c2)
qed

lemma process_s3_record_raises_iff:
  "fst (process_s3_record env record rid w) = Inl e \<longleftrightarrow>
     startswith (eventName record) ''ObjectCreated'' \<and>
     \<not> is_sidecar_file (object_key record) \<and>
     start_ingestion_job env (length (ingestion_calls w)) rid = Inl e"
proof (cases "startswith (eventName record) ''ObjectCreated'' \<and>
              \<not> is_sidecar_file (object_key record)")
  case False
  then have "process_s3_record env record rid w = (Inr None, w)"
    using process_s3_record_skip_event process_s3_record_skip_sidecar by blast
  with False show ?thesis by auto
next
  case True
  then have c: "startswith (eventName record) ''ObjectCreated''"
    and d: "\<not> is_sidecar_file (object_key record)" by simp_all
  show ?thesis
    by (cases "start_ingestion_job env (length (ingestion_calls w)) rid")
       (simp_all add: process_s3_record_calls(2) [OF c d] c d)
qed

lemma process_records_append:
  assumes "process_records env rid before jobs0 w = (Inr jobs, w1)"
  shows "process_records env rid (before @ rest) jobs0 w = process_records env rid rest jobs w1"
  using assms
proof (induction before arbitrary: jobs0 w)
  case Nil
  then show ?case by simp
next
  case (Cons r rs)
  obtain res wr where p: "process_s3_record env r rid w = (res, wr)"
    by (cases "process_s3_record env r rid w")
  show ?case
  proof (cases res)
    case (Inl e)
    with p Cons.prems show ?thesis by simp
  next
    case (Inr jd)
    show ?thesis
    proof (cases jd)
      case None
      with p Inr Cons.prems have "process_records env rid rs jobs0 wr = (Inr jobs, w1)"
        by simp
      from Cons.IH [OF this] p Inr None show ?thesis by simp
    next
      case (Some job)
      with p Inr Cons.prems
      have "process_records env rid rs (jobs0 @ [job]) wr = (Inr jobs, w1)"
        by simp
      from Cons.IH [OF this] p Inr Some show ?thesis by simp
    qed
  qed
qed

text \<open>
  Claim C3, amended. The handler processes the records of a batch in order. Whatever
  the best-effort steps do (tagging the object, updating the DocumentRecord, updating the
  sidecars and invoking the Extraction Worker may each raise), an exception leaves
  \<open>process_s3_record\<close> exactly when the record is a created document and the
  start-ingestion call raises it. When that happens at any position of the batch, after
  records that returned, the handler answers with the error payload alone and the world
  is the one the failing record left: the records after it are not processed. Records
  that return let the rest of the batch be processed from the world they left.
\<close>

theorem batch_stops_at_first_failure:
  "(fst (process_s3_record env record request_id w) = Inl e \<longleftrightarrow>
      startswith (eventName record) ''ObjectCreated'' \<and>
      \<not> is_sidecar_file (object_key record) \<and>
      start_ingestion_job env (length (ingestion_calls w)) request_id = Inl e) \<and>
   (process_records env request_id before [] w = (Inr jobs, w1) \<and>
    process_s3_record env record request_id w1 = (Inl e, w2) \<longrightarrow>
      ingest_lambda_handler env (before @ record # rest) request_id w =
        (JObj [(''error'', JStr (error_text e))], w2)) \<and>
   (process_records env request_id before [] w = (Inr jobs, w1) \<longrightarrow>
      snd (ingest_lambda_handler env (before @ rest) request_id w) =
        snd (ingest_lambda_handler env rest request_id w1))"
proof (intro conjI impI)
  show "fst (process_s3_record env record request_id w) = Inl e \<longleftrightarrow>
      startswith (eventName record) ''ObjectCreated'' \<and>
      \<not> is_sidecar_file (object_key record) \<and>
      start_ingestion_job env (length (ingestion_calls w)) request_id = Inl e"
    by (rule process_s3_record_raises_iff)
next
  assume a: "process_records env request_id before [] w = (Inr jobs, w1) \<and>
    process_s3_record env record request_id w1 = (Inl e, w2)"
  then have "process_records env request_id (before @ record # rest) [] w =
      process_records env request_id (record # rest) jobs w1"
    by (simp add: process_records_append)
  with a show "ingest_lambda_handler env (before @ record # rest) request_id w =
        (JObj [(''error'', JStr (error_text e))], w2)"
    by (simp add: ingest_lambda_handler_def)
next
  assume a: "process_records env request_id before [] w = (Inr jobs, w1)"
  have "snd (ingest_lambda_handler env (before @ rest) request_id w) =
        snd (process_records env request_id rest jobs w1)"
    by (simp add: handler_world process_records_append [OF a])
  also have "\<dots> = snd (process_records env request_id rest [] w1)"
    by (rule process_records_world)
  finally show "snd (ingest_lambda_handler env (before @ rest) request_id w) =
        snd (ingest_lambda_handler env rest request_id w1)"
    by (simp add: handler_world)
qed


lemma demo_d3_document: "\<not> is_sidecar_file (object_key (demo_record ''users/u1/other/d3-c.txt''))"
  by (simp add: demo_record_def is_sidecar_file_def SIDECAR_TYPES_def endswith_def)

theorem batch_stops_at_first_failure_witness:
  "ingest_lambda_handler demo_flaky_env
     [demo_record ''users/u1/other/d1-a.txt'', demo_record ''users/u1/other/d2-b.txt'',
      demo_record ''users/u1/other/d3-c.txt'']
     ''req-1'' demo_batch_world =
   (JObj [(''error'', JStr ''Service unavailable'')],
    snd (process_s3_record demo_flaky_env (demo_record ''users/u1/other/d2-b.txt'') ''req-1''
      (snd (process_s3_record demo_flaky_env (demo_record ''users/u1/other/d1-a.txt'') ''req-1''
              demo_batch_world)))) \<and>
   ingestion_calls (snd (ingest_lambda_handler demo_flaky_env
     [demo_record ''users/u1/other/d1-a.txt'', demo_record ''users/u1/other/d2-b.txt'',
      demo_record ''users/u1/other/d3-c.txt'']
     ''req-1'' demo_batch_world)) = [''req-1'', ''req-1'']"
proof -
  define w1 where "w1 = snd (process_s3_record demo_flaky_env
      (demo_record ''users/u1/other/d1-a.txt'') ''req-1'' demo_batch_world)"
  define w2 where "w2 = snd (process_s3_record demo_flaky_env
      (demo_record ''users/u1/other/d2-b.txt'') ''req-1'' w1)"
  have f1: "fst (process_s3_record demo_flaky_env (demo_record ''users/u1/other/d1-a.txt'')
              ''req-1'' demo_batch_world) =
            Inr (Some \<lparr>job_id = ''job-1'', job_state = ''STARTING''\<rparr>)"
    by (simp add: process_s3_record_calls(2) [OF demo_created demo_d1_document]
        demo_batch_world_def demo_world_def demo_flaky_env_def)
  have p1: "process_s3_record demo_flaky_env (demo_record ''users/u1/other/d1-a.txt'')
              ''req-1'' demo_batch_world =
            (Inr (Some \<lparr>job_id = ''job-1'', job_state = ''STARTING''\<rparr>), w1)"
    unfolding w1_def by (rule prod_eqI) (simp_all add: f1)
  have c1: "ingestion_calls w1 = [''req-1'']"
    unfolding w1_def
    by (simp add: process_s3_record_calls(1) [OF demo_created demo_d1_document]
        demo_batch_world_def demo_world_def)
  have f2: "fst (process_s3_record demo_flaky_env (demo_record ''users/u1/other/d2-b.txt'')
              ''req-1'' w1) = Inl (ServiceError ''Service unavailable'')"
    by (simp add: process_s3_record_calls(2) [OF demo_created demo_d2_document] c1
        demo_flaky_env_def)
  have p2: "process_s3_record demo_flaky_env (demo_record ''users/u1/other/d2-b.txt'')
              ''req-1'' w1 = (Inl (ServiceError ''Service unavailable''), w2)"
    unfolding w2_def by (rule prod_eqI) (simp_all add: f2)
  have c2: "ingestion_calls w2 = [''req-1'', ''req-1'']"
    unfolding w2_def
    by (simp add: process_s3_record_calls(1) [OF demo_created demo_d2_document] c1)
  have b: "process_records demo_flaky_env ''req-1'' [demo_record ''users/u1/other/d1-a.txt'']
             [] demo_batch_world =
           (Inr [\<lparr>job_id = ''job-1'', job_state = ''STARTING''\<rparr>], w1)"
    by (simp add: p1)
  have "ingest_lambda_handler demo_flaky_env
     ([demo_record ''users/u1/other/d1-a.txt''] @ demo_record ''users/u1/other/d2-b.txt'' #
      [demo_record ''users/u1/other/d3-c.txt''])
     ''req-1'' demo_batch_world =
   (JObj [(''error'', JStr (error_text (ServiceError ''Service unavailable'')))], w2)"
    by (rule batch_stops_at_first_failure [THEN conjunct2, THEN conjunct1, THEN mp,
          OF conjI [OF b p2]])
  then show ?thesis
    by (simp add: error_text_def c2 w2_def [symmetric] w1_def [symmetric])
qed

subsection \<open>Upload Initiator\<close>





text \<open>
  An accepted request, in contrast, answers 200 and leaves the DocumentRecord and the
  processing sidecar, both with the status \<open>upload_initiated\<close>; a declared size that is
  a float is refused by the table after the sidecars are written.
\<close>

lemma write_sidecar_metadata:
  "write_sidecar clock bucket k ''metadata'' d w =
     (Inr (k @ ''.metadata.json''),
      w\<lparr>ticks := Suc (ticks w),
        objects := (objects w)((bucket, k @ ''.metadata.json'') \<mapsto>
                  \<lparr>body = Json d, content_type = Some ''application/json'',
                   metadata = [(''sidecar-type'', JStr ''metadata''),
                               (''parent-document'', JStr k),
                               (''created-at'', JTime (clock (ticks w)))]\<rparr>)\<rparr>)"
  by (simp add: write_sidecar_def utcnow_def get_sidecar_key_def SIDECAR_TYPES_def)

lemma table_log_activity: "table (log_activity env uid rt meta w) = table w"
  by (simp add: log_activity_def utcnow_def Let_def)

lemma objects_log_activity: "objects (log_activity env uid rt meta w) = objects w"
  by (simp add: log_activity_def utcnow_def Let_def)

lemma upload_accept_creates:
  assumes "\<not> has_float sz" and "\<not> has_float tgs"
    and "put_item_error env = (\<lambda>it. None)"
  shows "statusCode (fst (upload_accept env uid fn dt (JStr ct) sz tgs w)) = 200 \<and>
   (\<exists>it. get_item (snd (upload_accept env uid fn dt (JStr ct) sz tgs w)) uid
            (uuid4 env (uuids_drawn w)) = Some it \<and>
         currentStatus it = Some ''upload_initiated'') \<and>
   status_chain (DOCS_BUCKET env)
       (upload_s3_key uid dt (uuid4 env (uuids_drawn w)) fn)
       (snd (upload_accept env uid fn dt (JStr ct) sz tgs w)) =
     Some [JObj [(''status'', JStr ''upload_initiated''),
                 (''timestamp'', JTime (upload_clock env (ticks w))),
                 (''details'', JStr ''Presigned URL generated, awaiting upload'')]]"
  using assms
  by (simp add: upload_accept_def upload_store_def write_sidecar_metadata
      write_sidecar_processing
      write_sidecar_audit utcnow_def Let_def put_item_def get_item_def update_conv'
      table_log_activity objects_log_activity status_chain_def read_sidecar_def subscript_def)

lemma upload_float_size_leaves_sidecars:
  "statusCode (fst (upload_accept env uid fn dt (JStr ct) (JNum r) tgs w)) = 500 \<and>
   table (snd (upload_accept env uid fn dt (JStr ct) (JNum r) tgs w)) = table w \<and>
   status_chain (DOCS_BUCKET env)
       (upload_s3_key uid dt (uuid4 env (uuids_drawn w)) fn)
       (snd (upload_accept env uid fn dt (JStr ct) (JNum r) tgs w)) \<noteq> None"
  by (simp add: upload_accept_def upload_store_def write_sidecar_metadata
      write_sidecar_processing upload_failure_def is_value_error_def error_response_def
      write_sidecar_audit utcnow_def Let_def status_chain_def read_sidecar_def subscript_def)

subsection \<open>Extraction Worker\<close>

lemma write_sidecar_extracted:
  "write_sidecar clock bucket k ''extracted'' d w =
     (Inr (k @ ''.extracted.json''),
      w\<lparr>ticks := Suc (ticks w),
        objects := (objects w)((bucket, k @ ''.extracted.json'') \<mapsto>
                  \<lparr>body = Json d, content_type = Some ''application/json'',
                   metadata = [(''sidecar-type'', JStr ''extracted''),
                               (''parent-document'', JStr k),
                               (''created-at'', JTime (clock (ticks w)))]\<rparr>)\<rparr>)"
  by (simp add: write_sidecar_def utcnow_def get_sidecar_key_def SIDECAR_TYPES_def)

lemma read_sidecar_extracted:
  "objects w (B, k @ ''.extracted.json'') = Some ob \<Longrightarrow> body ob = Json d \<Longrightarrow>
   read_sidecar B k ''extracted'' w = Inr (Some d)"
  by (simp add: read_sidecar_def get_sidecar_key_def SIDECAR_TYPES_def)

text \<open>The appends write the object at their own sidecar key and no other.\<close>

lemma objects_append_processing_status:
  "key \<noteq> (B, k @ ''.processing.json'') \<Longrightarrow>
   objects (snd (append_processing_status clock B k st details ei w)) key = objects w key"
  by (auto simp: append_processing_status_def write_sidecar_processing utcnow_def Let_def
      split: sum.splits if_splits)

lemma objects_append_audit_event:
  "key \<noteq> (B, k @ ''.audit.json'') \<Longrightarrow>
   objects (snd (append_audit_event clock B k action uid kw w)) key = objects w key"
  by (auto simp: append_audit_event_def write_sidecar_audit utcnow_def Let_def
      split: sum.splits if_splits)

lemma objects_update_sidecar_error:
  "key \<noteq> (ANALYSIS_BUCKET_NAME env, k @ ''.processing.json'') \<Longrightarrow>
   objects (update_sidecar_error env (Some k) st msg w) key = objects w key"
  by (simp add: update_sidecar_error_def utcnow_def Let_def objects_append_processing_status)

lemma objects_analysis_failure:
  "key \<noteq> (ANALYSIS_BUCKET_NAME env, k @ ''.processing.json'') \<Longrightarrow>
   objects (snd (analysis_failure env (Some k) e w)) key = objects w key"
  by (simp add: analysis_failure_def objects_update_sidecar_error)

lemma statusCode_analysis_failure:
  "statusCode (fst (analysis_failure env k e w)) \<noteq> 200"
  by (simp add: analysis_failure_def error_response_def)

text \<open>The worker's update of the DocumentRecord is refused by the client: nothing is written.\<close>

lemma update_document_metadata_writes_nothing:
  "update_document_metadata env s3_key confidence now w = w"
  by (simp add: update_document_metadata_def update_item_with_def)

lemma appendable_cong:
  "objects w' (B, k @ ''.processing.json'') = objects w (B, k @ ''.processing.json'') \<Longrightarrow>
   appendable B k ei w' = appendable B k ei w"
  by (simp add: appendable_def read_sidecar_def)

lemma audit_appendable_cong:
  "objects w' (B, k @ ''.audit.json'') = objects w (B, k @ ''.audit.json'') \<Longrightarrow>
   audit_appendable B k w' = audit_appendable B k w"
  by (simp add: audit_appendable_def read_sidecar_def)

lemma status_chain_appendable:
  assumes "status_chain B k w = Some xs"
  shows "appendable B k None w"
proof -
  from assms obtain d where r: "read_sidecar B k ''processing'' w = Inr (Some d)"
    and s: "subscript d ''statusChain'' = Inr (JArr xs)"
    by (auto simp: status_chain_def split: sum.splits option.splits json.splits)
  from subscript_JObj [OF s] obtain kvs where
    d: "d = JObj kvs" and c: "map_of kvs ''statusChain'' = Some (JArr xs)"
    by blast
  from c have "kvs \<noteq> []" by auto
  with r d c show ?thesis
    by (simp add: appendable_def or_default_def has_list_def subscript_def nonempty_dict_def)
qed

lemma appendable_runs:
  assumes "appendable B k None w"
  shows "\<exists>w'. append_processing_status clock B k st details None w = (Inr (), w') \<and>
              appendable B k None w'"
proof -
  from assms obtain r where
    r: "read_sidecar B k ''processing'' w = Inr r"
    and c: "subscript (or_default r processing_default) ''statusChain'' =
              Inr (JArr (previous_chain B k w))"
    by (rule previous_chain_appendable)
  have "nonempty_dict None \<longrightarrow>
          (\<exists>es. subscript (or_default r processing_default) ''errors'' = Inr (JArr es))"
    by (simp add: nonempty_dict_def)
  from append_processing_status_runs [OF r c this, of clock st details]
  obtain w' where a: "append_processing_status clock B k st details None w = (Inr (), w')"
    and s: "status_chain B k w' =
              Some (previous_chain B k w @
                      [JObj [(''status'', JStr st), (''timestamp'', JTime (clock (ticks w))),
                             (''details'', JStr details)]])"
    by blast
  from status_chain_appendable [OF s] a show ?thesis by blast
qed

lemma append_audit_event_runs:
  assumes "audit_appendable B k w"
  shows "\<exists>w'. append_audit_event clock B k action uid kw w = (Inr (), w')"
proof -
  from assms obtain r where r: "read_sidecar B k ''audit'' w = Inr r"
    by (cases "read_sidecar B k ''audit'' w") (simp_all add: audit_appendable_def)
  with assms have "has_list (or_default r (JObj [(''events'', JArr [])])) ''events''"
    by (simp add: audit_appendable_def)
  from has_list_JObj [OF this] obtain kvs evs where
    d: "or_default r (JObj [(''events'', JArr [])]) = JObj kvs"
    and c: "map_of kvs ''events'' = Some (JArr evs)"
    by blast
  show ?thesis
    using r d c
    by (simp add: append_audit_event_def as_list_def set_key_def Let_def utcnow_def
        write_sidecar_audit subscript_def)
qed

lemma append_audit_event_refuses:
  assumes "\<not> audit_appendable B k w"
  shows "\<exists>e. fst (append_audit_event clock B k action uid kw w) = Inl e"
proof (cases "read_sidecar B k ''audit'' w")
  case (Inl e)
  then show ?thesis by (simp add: append_audit_event_def)
next
  case (Inr r)
  let ?d = "or_default r (JObj [(''events'', JArr [])])"
  from assms Inr have n: "\<not> has_list ?d ''events''"
    by (simp add: audit_appendable_def)
  show ?thesis
  proof (cases "subscript ?d ''events''")
    case (Inl e)
    with Inr show ?thesis
      by (simp add: append_audit_event_def Let_def utcnow_def)
  next
    case sub: (Inr v)
    with n have "\<exists>e. as_list v = Inl e"
      by (cases v) (simp_all add: has_list_def as_list_def)
    then obtain e where "as_list v = Inl e" ..
    with Inr sub show ?thesis
      by (simp add: append_audit_event_def Let_def utcnow_def)
  qed
qed

text \<open>
  From the extracted data on: the extracted sidecar is written and stays, whatever the
  appends after it do; the answer is 200 exactly when the audit event can be appended.
\<close>

lemma store_extraction_stores:
  assumes pa: "appendable (ANALYSIS_BUCKET_NAME env) k None w"
  shows "read_sidecar (ANALYSIS_BUCKET_NAME env) k ''extracted''
             (snd (store_extraction env k dt data w)) =
           Inr (Some (extracted_sidecar env (analysis_clock env (ticks w)) dt data))"
    and "statusCode (fst (store_extraction env k dt data w)) = 200 \<longleftrightarrow>
           audit_appendable (ANALYSIS_BUCKET_NAME env) k w"
proof -
  let ?B = "ANALYSIS_BUCKET_NAME env" and ?clock = "analysis_clock env"
  let ?d = "extracted_sidecar env (?clock (ticks w)) dt data"
  let ?ob = "\<lparr>body = Json ?d, content_type = Some ''application/json'',
                   metadata = [(''sidecar-type'', JStr ''extracted''),
                               (''parent-document'', JStr k),
                               (''created-at'', JTime (?clock (Suc (ticks w))))]\<rparr>"
  let ?ek = "(?B, k @ ''.extracted.json'')"
  obtain k1 w2 where wr: "write_sidecar ?clock ?B k ''extracted'' ?d
       (w\<lparr>ticks := Suc (ticks w)\<rparr>) = (Inr k1, w2)"
    and o2: "objects w2 = (objects w)(?ek \<mapsto> ?ob)"
    by (simp add: write_sidecar_extracted)
  have pa2: "appendable ?B k None w2"
    using pa by (simp add: appendable_cong [of w2 ?B k w] o2)
  from appendable_runs [OF pa2]
  obtain w3 where ap: "append_processing_status ?clock ?B k ''ai_analysis_complete''
        (''Extraction successful, confidence: '' @ confidence_text (confidence_of data)) None w2
        = (Inr (), w3)"
    by blast
  have o3: "objects w3 key = objects w2 key" if "key \<noteq> (?B, k @ ''.processing.json'')" for key
    using objects_append_processing_status [OF that, of ?clock "''ai_analysis_complete''"
        "''Extraction successful, confidence: '' @ confidence_text (confidence_of data)" None w2]
      ap
    by simp
  have e3: "objects w3 ?ek = Some ?ob"
    by (simp add: o3 o2)
  have au3: "audit_appendable ?B k w3 = audit_appendable ?B k w"
    by (rule audit_appendable_cong) (simp add: o3 o2)
  obtain res4 w4 where au: "append_audit_event ?clock ?B k ''ai_extraction_complete'' ''system''
        [(''confidence'', JNum (confidence_of data)), (''documentType'', JStr dt)] w3
        = (res4, w4)"
    by (cases "append_audit_event ?clock ?B k ''ai_extraction_complete'' ''system''
        [(''confidence'', JNum (confidence_of data)), (''documentType'', JStr dt)] w3")
  have e4: "objects w4 ?ek = Some ?ob"
    using objects_append_audit_event [of ?ek ?B k ?clock "''ai_extraction_complete''" "''system''"
        "[(''confidence'', JNum (confidence_of data)), (''documentType'', JStr dt)]" w3]
    by (simp add: au e3)
  show "read_sidecar ?B k ''extracted'' (snd (store_extraction env k dt data w)) =
           Inr (Some ?d)"
  proof (cases res4)
    case (Inl e)
    have "store_extraction env k dt data w = analysis_failure env (Some k) e w4"
      using wr ap au Inl by (simp add: store_extraction_def utcnow_def Let_def)
    then have "objects (snd (store_extraction env k dt data w)) ?ek = Some ?ob"
      by (simp add: objects_analysis_failure e4)
    then show ?thesis by (rule read_sidecar_extracted) simp
  next
    case (Inr u)
    have "snd (store_extraction env k dt data w) = w4"
      using wr ap au Inr
      by (simp add: store_extraction_def utcnow_def Let_def
          update_document_metadata_writes_nothing)
    then have "objects (snd (store_extraction env k dt data w)) ?ek = Some ?ob"
      by (simp add: e4)
    then show ?thesis by (rule read_sidecar_extracted) simp
  qed
  show "statusCode (fst (store_extraction env k dt data w)) = 200 \<longleftrightarrow>
           audit_appendable ?B k w"
  proof (cases "audit_appendable ?B k w")
    case True
    then have "audit_appendable ?B k w3" by (simp add: au3)
    from append_audit_event_runs [OF this, of ?clock "''ai_extraction_complete''" "''system''"
        "[(''confidence'', JNum (confidence_of data)), (''documentType'', JStr dt)]"] au
    have "res4 = Inr ()" by auto
    with wr ap au True show ?thesis
      by (simp add: store_extraction_def utcnow_def Let_def)
  next
    case False
    then have "\<not> audit_appendable ?B k w3" by (simp add: au3)
    from append_audit_event_refuses [OF this, of ?clock "''ai_extraction_complete''" "''system''"
        "[(''confidence'', JNum (confidence_of data)), (''documentType'', JStr dt)]"] au
    obtain e where "res4 = Inl e" by auto
    with wr ap au False show ?thesis
      by (simp add: store_extraction_def utcnow_def Let_def statusCode_analysis_failure)
  qed
qed

lemma extract_text_cong:
  "objects w' (b, k) = objects w (b, k) \<Longrightarrow>
   extract_text_from_document env b k w' = extract_text_from_document env b k w"
  by (simp add: extract_text_from_document_def)

text \<open>
  A run that gets the model's answer: the input is valid, the \<open>ai_analysis_started\<close>
  entry can be appended, the document is read as a non-empty text, and the model answers.
  It ends in \<open>store_extraction\<close> when the answer yields extracted data, and in the
  \<open>except\<close> clauses when decoding raised something else.
\<close>

lemma analysis_handler_reaches_answer:
  assumes venv: "ANALYSIS_BUCKET_NAME env \<noteq> []"
    and vin: "validate_input event = Inr (bucket, k, job)"
    and pa: "appendable (ANALYSIS_BUCKET_NAME env) k None w"
    and doc: "extract_text_from_document env bucket k w = Inr text"
    and ne: "text \<noteq> []"
    and ai: "invoke_model env (extraction_prompt env text (get_document_type_from_key k)) =
               Inr answer"
  shows "\<exists>w1. appendable (ANALYSIS_BUCKET_NAME env) k None w1 \<and>
           (\<forall>key. key \<noteq> (ANALYSIS_BUCKET_NAME env, k @ ''.processing.json'') \<longrightarrow>
                  objects w1 key = objects w key) \<and>
           analysis_lambda_handler env event w =
             (case parse_extracted env answer of
                Inl e \<Rightarrow> analysis_failure env (Some k) e w1
              | Inr data \<Rightarrow> store_extraction env k (get_document_type_from_key k) data w1)"
proof -
  let ?B = "ANALYSIS_BUCKET_NAME env" and ?clock = "analysis_clock env"
  from appendable_runs [OF pa]
  obtain w1 where ap: "append_processing_status ?clock ?B k ''ai_analysis_started''
        ''Starting AI extraction with Claude'' None w = (Inr (), w1)"
    and pa1: "appendable ?B k None w1"
    by blast
  have o1: "objects w1 key = objects w key" if "key \<noteq> (?B, k @ ''.processing.json'')" for key
    using objects_append_processing_status [OF that, of ?clock "''ai_analysis_started''"
        "''Starting AI extraction with Claude''" None w] ap
    by simp
  have doc1: "extract_text_from_document env bucket k w1 = Inr text"
    using doc by (simp add: extract_text_cong [of w1 bucket k w] o1)
  have inv: "invoke_claude_for_extraction env text (get_document_type_from_key k) =
      parse_extracted env answer"
    using ne ai by (simp add: invoke_claude_for_extraction_def)
  have h: "analysis_lambda_handler env event w =
      (case parse_extracted env answer of
         Inl e \<Rightarrow> analysis_failure env (Some k) e w1
       | Inr data \<Rightarrow> store_extraction env k (get_document_type_from_key k) data w1)"
    using venv vin ap doc1 inv
    by (simp add: analysis_lambda_handler_def validate_environment_def Let_def)
  from pa1 o1 h show ?thesis by blast
qed

lemma analysis_handler_stores:
  assumes venv: "ANALYSIS_BUCKET_NAME env \<noteq> []"
    and vin: "validate_input event = Inr (bucket, k, job)"
    and pa: "appendable (ANALYSIS_BUCKET_NAME env) k None w"
    and doc: "extract_text_from_document env bucket k w = Inr text"
    and ne: "text \<noteq> []"
    and ai: "invoke_model env (extraction_prompt env text (get_document_type_from_key k)) =
               Inr answer"
    and pe: "parse_extracted env answer = Inr data"
  shows "stored_data (ANALYSIS_BUCKET_NAME env) k (snd (analysis_lambda_handler env event w)) =
           Some data"
    and "stored_confidence (ANALYSIS_BUCKET_NAME env) k
             (snd (analysis_lambda_handler env event w)) = Some (JNum (confidence_of data))"
    and "statusCode (fst (analysis_lambda_handler env event w)) = 200 \<longleftrightarrow>
           audit_appendable (ANALYSIS_BUCKET_NAME env) k w"
proof -
  let ?B = "ANALYSIS_BUCKET_NAME env"
  from analysis_handler_reaches_answer [OF venv vin pa doc ne ai]
  obtain w1 where pa1: "appendable ?B k None w1"
    and o1: "\<forall>key. key \<noteq> (?B, k @ ''.processing.json'') \<longrightarrow> objects w1 key = objects w key"
    and h: "analysis_lambda_handler env event w =
              store_extraction env k (get_document_type_from_key k) data w1"
    by (auto simp: pe)
  note st = store_extraction_stores [OF pa1, of "get_document_type_from_key k" data]
  from st(1) show "stored_data ?B k (snd (analysis_lambda_handler env event w)) = Some data"
    by (simp add: h stored_data_def extracted_sidecar_def subscript_def)
  from st(1) show "stored_confidence ?B k (snd (analysis_lambda_handler env event w)) =
      Some (JNum (confidence_of data))"
    by (simp add: h stored_confidence_def extracted_sidecar_def subscript_def)
  have "audit_appendable ?B k w1 = audit_appendable ?B k w"
    by (rule audit_appendable_cong) (simp add: o1)
  with st(2) show "statusCode (fst (analysis_lambda_handler env event w)) = 200 \<longleftrightarrow>
           audit_appendable ?B k w"
    by (simp add: h)
qed

text \<open>
  When decoding raises anything but a decoding error, the run fails and the extracted
  sidecar is left as it was.
\<close>

lemma analysis_handler_decoder_raises:
  assumes venv: "ANALYSIS_BUCKET_NAME env \<noteq> []"
    and vin: "validate_input event = Inr (bucket, k, job)"
    and pa: "appendable (ANALYSIS_BUCKET_NAME env) k None w"
    and doc: "extract_text_from_document env bucket k w = Inr text"
    and ne: "text \<noteq> []"
    and ai: "invoke_model env (extraction_prompt env text (get_document_type_from_key k)) =
               Inr answer"
    and pe: "parse_extracted env answer = Inl e"
  shows "statusCode (fst (analysis_lambda_handler env event w)) \<noteq> 200"
    and "objects (snd (analysis_lambda_handler env event w))
           (ANALYSIS_BUCKET_NAME env, k @ ''.extracted.json'') =
         objects w (ANALYSIS_BUCKET_NAME env, k @ ''.extracted.json'')"
proof -
  let ?B = "ANALYSIS_BUCKET_NAME env"
  from analysis_handler_reaches_answer [OF venv vin pa doc ne ai]
  obtain w1 where
    o1: "\<forall>key. key \<noteq> (?B, k @ ''.processing.json'') \<longrightarrow> objects w1 key = objects w key"
    and h: "analysis_lambda_handler env event w = analysis_failure env (Some k) e w1"
    by (auto simp: pe)
  show "statusCode (fst (analysis_lambda_handler env event w)) \<noteq> 200"
    by (simp add: h statusCode_analysis_failure)
  show "objects (snd (analysis_lambda_handler env event w)) (?B, k @ ''.extracted.json'') =
         objects w (?B, k @ ''.extracted.json'')"
    by (simp add: h objects_analysis_failure o1)
qed


lemma parse_extracted_invalid:
  "find_char CHR ''{'' answer \<noteq> - 1 \<Longrightarrow>
   rfind_char CHR ''}'' answer + 1 > find_char CHR ''{'' answer \<Longrightarrow>
   json_loads env (slice answer (find_char CHR ''{'' answer) (rfind_char CHR ''}'' answer + 1))
     = Inl (JSONDecodeError m) \<Longrightarrow>
   parse_extracted env answer = Inr (extraction_fallback answer ''Invalid JSON'')"
  by (simp add: parse_extracted_def Let_def)


lemma parse_extracted_raises:
  "find_char CHR ''{'' answer \<noteq> - 1 \<Longrightarrow>
   rfind_char CHR ''}'' answer + 1 > find_char CHR ''{'' answer \<Longrightarrow>
   json_loads env (slice answer (find_char CHR ''{'' answer) (rfind_char CHR ''}'' answer + 1))
     = Inl e \<Longrightarrow>
   (\<forall>m. e \<noteq> JSONDecodeError m) \<Longrightarrow>
   parse_extracted env answer = Inl e"
  by (cases e) (simp_all add: parse_extracted_def Let_def)




lemma demo_valid_input:
  "validate_input demo_analysis_event = Inr (''docs'', ''users/u1/other/d1-a.txt'', Some ''job-1'')"
  by code_simp



lemma demo_answer:
  "invoke_model (demo_analysis_env answer) prompt = Inr answer"
  "ANALYSIS_BUCKET_NAME (demo_analysis_env answer) = ''docs''"
  "json_loads (demo_analysis_env answer) = decode_object"
  by (simp_all add: demo_analysis_env_def)

lemma demo_oops:
  "find_char CHR ''{'' ''{oops}'' = 0" "rfind_char CHR ''}'' ''{oops}'' = 5"
  "slice ''{oops}'' 0 6 = ''{oops}''"
  "decode_object ''{oops}'' = Inl (JSONDecodeError ''Expecting value'')"
  "\<not> contains_json_object decode_object ''{oops}''"
  by code_simp+



text \<open>
  With an audit sidecar that is a list, the same answer still leaves the extracted
  sidecar, and the run ends with an error response.
\<close>

lemma demo_audit_list:
  "appendable ''docs'' ''users/u1/other/d1-a.txt'' None demo_audit_list_world"
  "\<not> audit_appendable ''docs'' ''users/u1/other/d1-a.txt'' demo_audit_list_world"
  "extract_text_from_document (demo_analysis_env answer) ''docs'' ''users/u1/other/d1-a.txt''
     demo_audit_list_world = Inr ''Wellness plan for the spring term''"
  by (simp_all add: appendable_def audit_appendable_def read_sidecar_def
      demo_audit_list_world_def demo_document_world_def demo_world_def or_default_def
      processing_default_def has_list_def subscript_def nonempty_dict_def
      extract_text_from_document_def demo_analysis_env_def body_bytes_def decode_ascii_def)

lemma extracted_sidecar_survives_audit_failure:
  "statusCode (fst (analysis_lambda_handler (demo_analysis_env ''{oops}'') demo_analysis_event
                      demo_audit_list_world)) \<noteq> 200 \<and>
   stored_data ''docs'' ''users/u1/other/d1-a.txt''
       (snd (analysis_lambda_handler (demo_analysis_env ''{oops}'') demo_analysis_event
               demo_audit_list_world)) =
     Some (JObj [(''raw_response'', JStr ''{oops}''), (''error'', JStr ''Invalid JSON'')])"
proof -
  let ?env = "demo_analysis_env ''{oops}''"
  have v: "ANALYSIS_BUCKET_NAME ?env \<noteq> []"
    by (simp add: demo_answer)
  have pa: "appendable (ANALYSIS_BUCKET_NAME ?env) ''users/u1/other/d1-a.txt'' None
              demo_audit_list_world"
    by (simp add: demo_answer demo_audit_list)
  have ne: "''Wellness plan for the spring term'' \<noteq> []"
    by simp
  have ai: "invoke_model ?env (extraction_prompt ?env ''Wellness plan for the spring term''
               (get_document_type_from_key ''users/u1/other/d1-a.txt'')) = Inr ''{oops}''"
    by (rule demo_answer(1))
  have pe: "parse_extracted ?env ''{oops}'' = Inr (extraction_fallback ''{oops}'' ''Invalid JSON'')"
    by (rule parse_extracted_invalid [of _ _ "''Expecting value''"])
       (simp_all add: demo_oops demo_answer)
  note st = analysis_handler_stores [OF v demo_valid_input pa demo_audit_list(3) ne ai pe]
  from st(1) st(3) show ?thesis
    by (simp add: demo_answer demo_audit_list extraction_fallback_def)
qed

subsection \<open>Document identity, for every uploaded key\<close>

text \<open>
  At every key the Upload Initiator derives from a hyphenated UUID and a file name
  without a slash, the Ingestion Trigger recovers the UUID and the Extraction Worker its
  first eight characters, so the worker's update of the DocumentRecord never addresses
  the record of that document.
\<close>

lemma split_on_not_Nil: "split_on c s \<noteq> []"
  by (induction s) (auto split: list.splits)

lemma split_on_absent: "c \<notin> set s \<Longrightarrow> split_on c s = [s]"
  by (induction s) auto

lemma split_on_append:
  "split_on c (a @ c # b) = split_on c a @ split_on c b"
proof (induction a)
  case Nil
  show ?case by simp
next
  case (Cons x a)
  show ?case
  proof (cases "x = c")
    case True
    then show ?thesis by (simp add: Cons.IH)
  next
    case False
    obtain p ps where sp: "split_on c a = p # ps"
      using split_on_not_Nil [of c a] by (cases "split_on c a") auto
    with False show ?thesis by (simp add: Cons.IH)
  qed
qed

lemma join_split_on: "join [c] (split_on c s) = s"
proof (induction s)
  case Nil
  show ?case by simp
next
  case (Cons x s)
  obtain p ps where sp: "split_on c s = p # ps"
    using split_on_not_Nil [of c s] by (cases "split_on c s") auto
  show ?case
  proof (cases "x = c")
    case True
    with Cons.IH sp show ?thesis by simp
  next
    case False
    with Cons.IH sp show ?thesis by (cases ps) auto
  qed
qed

lemma uuid_groups:
  assumes "is_uuid u"
  obtains a b c d e where "split_on CHR ''-'' u = [a, b, c, d, e]" "length a = 8"
    "list_all is_hex (a @ b @ c @ d @ e)"
proof -
  from assms obtain a r1 where 1: "split_on CHR ''-'' u = a # r1"
    by (cases "split_on CHR ''-'' u") (simp_all add: is_uuid_def)
  with assms obtain b r2 where 2: "r1 = b # r2" by (cases r1) (simp_all add: is_uuid_def)
  with 1 assms obtain c r3 where 3: "r2 = c # r3" by (cases r2) (simp_all add: is_uuid_def)
  with 1 2 assms obtain d r4 where 4: "r3 = d # r4" by (cases r3) (simp_all add: is_uuid_def)
  with 1 2 3 assms obtain e r5 where 5: "r4 = e # r5" by (cases r4) (simp_all add: is_uuid_def)
  with 1 2 3 4 assms have 6: "r5 = []" by (cases r5) (simp_all add: is_uuid_def)
  from 1 2 3 4 5 6 assms show ?thesis
    by (intro that [of a b c d e]) (simp_all add: is_uuid_def)
qed

lemma uuid_text:
  assumes "split_on CHR ''-'' u = [a, b, c, d, e]"
  shows "u = a @ ''-'' @ b @ ''-'' @ c @ ''-'' @ d @ ''-'' @ e"
proof -
  have "join ''-'' (split_on CHR ''-'' u) = u" by (rule join_split_on)
  with assms show ?thesis by simp
qed

lemma document_ids_differ:
  assumes u: "is_uuid u" and f: "CHR ''/'' \<notin> set filename"
  shows "extract_document_id_from_s3_key (upload_s3_key user_id document_type u filename) = u"
    and "analysis_document_id (upload_s3_key user_id document_type u filename) = take 8 u"
    and "take 8 u \<noteq> u"
proof -
  from u obtain a b c d e where sp: "split_on CHR ''-'' u = [a, b, c, d, e]"
    and la: "length a = 8" and hex: "list_all is_hex (a @ b @ c @ d @ e)"
    by (rule uuid_groups)
  note ut = uuid_text [OF sp]
  have nohex: "\<not> is_hex CHR ''/''" by (simp add: is_hex_def)
  have "CHR ''/'' \<notin> set (a @ b @ c @ d @ e)"
    using hex nohex by (auto simp: list_all_iff)
  then have su: "CHR ''/'' \<notin> set u"
    by (subst ut) auto
  let ?name = "u @ CHR ''-'' # filename"
  have key: "upload_s3_key user_id document_type u filename =
               (''users/'' @ user_id @ ''/'' @ document_type) @ CHR ''/'' # ?name"
    by (simp add: upload_s3_key_def)
  have "split_on CHR ''/'' ?name = [?name]"
    using su f by (intro split_on_absent) auto
  then have last: "last (split_on CHR ''/'' (upload_s3_key user_id document_type u filename)) = ?name"
    by (simp only: key split_on_append) (simp add: split_on_not_Nil)
  have parts: "split_on CHR ''-'' ?name = [a, b, c, d, e] @ split_on CHR ''-'' filename"
    by (simp only: split_on_append sp)
  obtain p ps where fs: "split_on CHR ''-'' filename = p # ps"
    using split_on_not_Nil [of "CHR ''-''" filename] by (cases "split_on CHR ''-'' filename") auto
  have j: "join ''-'' [a, b, c, d, e] = u"
    using join_split_on [of "CHR ''-''" u] by (simp add: sp)
  show "extract_document_id_from_s3_key (upload_s3_key user_id document_type u filename) = u"
    by (simp add: extract_document_id_from_s3_key_def last parts fs Let_def j [simplified])
  have "analysis_document_id (upload_s3_key user_id document_type u filename) = a"
    by (simp add: analysis_document_id_def last parts)
  moreover have "take 8 u = a"
    by (subst ut) (simp add: la)
  ultimately show "analysis_document_id (upload_s3_key user_id document_type u filename) = take 8 u"
    by simp
  have "length u > 8" by (subst ut) (simp add: la)
  then show "take 8 u \<noteq> u"
    by (metis length_take min.strict_order_iff nat_neq_iff min_less_iff_conj)
qed


text \<open>
  The key the worker's \<open>update_item\<close> addresses is never the document's: whatever the
  update sets, the record the Upload Initiator created is not reached.
\<close>

lemma worker_update_misses_record:
  assumes "is_uuid u" and "CHR ''/'' \<notin> set filename"
  shows "get_item (update_item
                     (analysis_user_id (upload_s3_key user_id document_type u filename))
                     (analysis_document_id (upload_s3_key user_id document_type u filename))
                     f w) user_id u = get_item w user_id u"
proof -
  let ?key = "upload_s3_key user_id document_type u filename"
  have "analysis_document_id ?key \<noteq> u"
    using document_ids_differ(2,3) [OF assms] by simp
  then have "(user_id, u) \<noteq> (analysis_user_id ?key, analysis_document_id ?key)"
    by simp
  then show ?thesis
    by (simp add: get_item_def get_item_update_item_other)
qed

end
